theory Spec2Isabelle
  imports Complex_Main "HOL-Library.Product_Lexorder"
begin

section \<open>Floating-point scalars as the engine's NumPy code sees them\<close>

text \<open>
  The engine (\<^verbatim>\<open>voice_cloning_engine.py\<close>) computes on NumPy \<^verbatim>\<open>float\<close> values. A value is
  a finite number, one of the two infinities, or NaN (the "undefined" of the feature
  vector: \<^verbatim>\<open>np.nanmean\<close> of a pitch track with no voiced frame). Finite values are modelled
  as reals: rounding, overflow and the sign of zero are abstracted, which is the
  granularity of "within floating tolerance". Comparisons and arithmetic follow
  IEEE 754 on the special values: every comparison with NaN is false, and an undefined
  form (\<open>0/0\<close>, \<open>inf - inf\<close>, \<open>0 * inf\<close>) is NaN; a non-zero number divided by zero is an
  infinity of the dividend's sign (NumPy warns and does not raise).
\<close>

datatype npfloat = Fin real | PInf | NInf | NaN

fun np_isnan :: "npfloat \<Rightarrow> bool" where
  "np_isnan NaN = True"
| "np_isnan _ = False"

text \<open>\<open>fl_less a b\<close> is \<^verbatim>\<open>a < b\<close>; \<^verbatim>\<open>a > b\<close> is \<open>fl_less b a\<close>.\<close>

fun fl_less :: "npfloat \<Rightarrow> npfloat \<Rightarrow> bool" where
  "fl_less (Fin x) (Fin y) = (x < y)"
| "fl_less (Fin x) PInf = True"
| "fl_less NInf (Fin y) = True"
| "fl_less NInf PInf = True"
| "fl_less _ _ = False"

definition fl_gt :: "npfloat \<Rightarrow> npfloat \<Rightarrow> bool" where
  "fl_gt a b = fl_less b a"

text \<open>\<open>fl_le a b\<close> is \<^verbatim>\<open>a <= b\<close>.\<close>

fun fl_le :: "npfloat \<Rightarrow> npfloat \<Rightarrow> bool" where
  "fl_le NaN _ = False"
| "fl_le _ NaN = False"
| "fl_le (Fin x) (Fin y) = (x \<le> y)"
| "fl_le NInf _ = True"
| "fl_le _ PInf = True"
| "fl_le _ _ = False"

fun fl_neg :: "npfloat \<Rightarrow> npfloat" where
  "fl_neg (Fin x) = Fin (- x)"
| "fl_neg PInf = NInf"
| "fl_neg NInf = PInf"
| "fl_neg NaN = NaN"

fun fl_add :: "npfloat \<Rightarrow> npfloat \<Rightarrow> npfloat" where
  "fl_add NaN _ = NaN"
| "fl_add _ NaN = NaN"
| "fl_add (Fin x) (Fin y) = Fin (x + y)"
| "fl_add PInf NInf = NaN"
| "fl_add NInf PInf = NaN"
| "fl_add PInf _ = PInf"
| "fl_add _ PInf = PInf"
| "fl_add NInf _ = NInf"
| "fl_add _ NInf = NInf"

definition fl_sub :: "npfloat \<Rightarrow> npfloat \<Rightarrow> npfloat" where
  "fl_sub a b = fl_add a (fl_neg b)"

text \<open>The sign of a product or quotient with an infinite operand.\<close>

definition signed_inf :: "real \<Rightarrow> npfloat" where
  "signed_inf s = (if 0 < s then PInf else if s < 0 then NInf else NaN)"

fun fl_mul :: "npfloat \<Rightarrow> npfloat \<Rightarrow> npfloat" where
  "fl_mul NaN _ = NaN"
| "fl_mul _ NaN = NaN"
| "fl_mul (Fin x) (Fin y) = Fin (x * y)"
| "fl_mul (Fin x) PInf = signed_inf x"
| "fl_mul (Fin x) NInf = signed_inf (- x)"
| "fl_mul PInf (Fin y) = signed_inf y"
| "fl_mul NInf (Fin y) = signed_inf (- y)"
| "fl_mul PInf PInf = PInf"
| "fl_mul NInf NInf = PInf"
| "fl_mul PInf NInf = NInf"
| "fl_mul NInf PInf = NInf"

fun fl_div :: "npfloat \<Rightarrow> npfloat \<Rightarrow> npfloat" where
  "fl_div NaN _ = NaN"
| "fl_div _ NaN = NaN"
| "fl_div (Fin x) (Fin y) = (if y = 0 then signed_inf x else Fin (x / y))"
| "fl_div (Fin x) _ = Fin 0"
| "fl_div PInf (Fin y) = (if y < 0 then NInf else PInf)"
| "fl_div NInf (Fin y) = (if y < 0 then PInf else NInf)"
| "fl_div _ _ = NaN"

fun fl_abs :: "npfloat \<Rightarrow> npfloat" where
  "fl_abs (Fin x) = Fin \<bar>x\<bar>"
| "fl_abs PInf = PInf"
| "fl_abs NInf = PInf"
| "fl_abs NaN = NaN"

text \<open>\<^verbatim>\<open>x ** 2\<close> on an array element.\<close>

definition fl_sq :: "npfloat \<Rightarrow> npfloat" where
  "fl_sq x = fl_mul x x"

fun np_sqrt :: "npfloat \<Rightarrow> npfloat" where
  "np_sqrt (Fin x) = (if x < 0 then NaN else Fin (sqrt x))"
| "np_sqrt PInf = PInf"
| "np_sqrt _ = NaN"

fun np_exp :: "npfloat \<Rightarrow> npfloat" where
  "np_exp (Fin x) = Fin (exp x)"
| "np_exp PInf = PInf"
| "np_exp NInf = Fin 0"
| "np_exp NaN = NaN"

text \<open>\<^verbatim>\<open>np.log\<close> (natural logarithm) and \<^verbatim>\<open>np.log2\<close>.\<close>

fun np_log :: "npfloat \<Rightarrow> npfloat" where
  "np_log (Fin x) = (if 0 < x then Fin (ln x) else if x = 0 then NInf else NaN)"
| "np_log PInf = PInf"
| "np_log _ = NaN"

fun np_log2 :: "npfloat \<Rightarrow> npfloat" where
  "np_log2 (Fin x) = (if 0 < x then Fin (log 2 x) else if x = 0 then NInf else NaN)"
| "np_log2 PInf = PInf"
| "np_log2 _ = NaN"

fun np_sign :: "npfloat \<Rightarrow> npfloat" where
  "np_sign (Fin x) = Fin (sgn x)"
| "np_sign PInf = Fin 1"
| "np_sign NInf = Fin (- 1)"
| "np_sign NaN = NaN"

text \<open>
  \<^verbatim>\<open>np.clip(x, lo, hi)\<close> with finite bounds is \<^verbatim>\<open>minimum(maximum(x, lo), hi)\<close>; NaN
  propagates.
\<close>

fun np_clip :: "npfloat \<Rightarrow> real \<Rightarrow> real \<Rightarrow> npfloat" where
  "np_clip (Fin x) lo hi = Fin (min (max x lo) hi)"
| "np_clip PInf lo hi = Fin hi"
| "np_clip NInf lo hi = Fin (min lo hi)"
| "np_clip NaN lo hi = NaN"

text \<open>
  Python's builtin \<^verbatim>\<open>max(a, b)\<close> and \<^verbatim>\<open>min(a, b)\<close> keep the first argument unless the
  second compares strictly greater (smaller): with a NaN they are not symmetric.
\<close>

definition py_max :: "npfloat \<Rightarrow> npfloat \<Rightarrow> npfloat" where
  "py_max a b = (if fl_gt b a then b else a)"

definition py_min :: "npfloat \<Rightarrow> npfloat \<Rightarrow> npfloat" where
  "py_min a b = (if fl_less b a then b else a)"

text \<open>
  \<^verbatim>\<open>np.mean\<close> of a one-dimensional array: the sum over the length. On the empty array the
  quotient is \<open>0/0\<close>, NaN (a warning, not an exception).
\<close>

definition np_mean :: "npfloat list \<Rightarrow> npfloat" where
  "np_mean xs = fl_div (foldl fl_add (Fin 0) xs) (Fin (real (length xs)))"

section \<open>Waveforms, exceptions and the feature dictionary\<close>

text \<open>A waveform is the array of samples; the sample rate travels beside it.\<close>

type_synonym waveform = "npfloat list"

text \<open>
  Every \<^verbatim>\<open>try\<close> of the engine catches \<^verbatim>\<open>Exception\<close>; the model keeps the exception's class.
  \<open>LibraryError\<close> stands for whatever a call into librosa, SciPy, soundfile or pyttsx3
  raises.
\<close>

datatype py_error = KeyError | ValueError | ZeroDivisionError | TypeError | LibraryError

text \<open>
  The feature dictionary built by \<^verbatim>\<open>extract_voice_features\<close>. A field is \<open>None\<close> when the
  key is absent from the dictionary (the stages receive any dictionary as
  \<^verbatim>\<open>target_features\<close>); a present scalar may be NaN.
\<close>

record features =
  f0_mean :: "npfloat option"
  f0_std :: "npfloat option"
  spectral_centroid_mean :: "npfloat option"
  spectral_rolloff_mean :: "npfloat option"
  zero_crossing_rate_mean :: "npfloat option"
  mfccs_mean :: "npfloat list option"
  formants :: "real list option"
  duration :: "npfloat option"
  energy :: "npfloat option"

section \<open>Dynamics matching\<close>

text \<open>
  \<^verbatim>\<open>match_voice_dynamics\<close>, lines 246 to 267. The energy ratio of lines 254 and 255:
\<close>

definition energy_ratio :: "npfloat \<Rightarrow> npfloat \<Rightarrow> npfloat" where
  "energy_ratio target_energy current_energy =
     np_clip (np_sqrt (fl_div target_energy current_energy)) (3 / 10) 3"

text \<open>
  Lines 258 to 262, the second step: the signal is renormalised to an RMS level of 0.1
  whenever its RMS compares positive.
\<close>

definition rms_normalise :: "waveform \<Rightarrow> waveform" where
  "rms_normalise audio =
     (let audio_rms = np_sqrt (np_mean (map fl_sq audio))
      in if fl_gt audio_rms (Fin 0)
         then map (\<lambda>x. fl_mul (fl_div x audio_rms) (Fin (1 / 10))) audio
         else audio)"

text \<open>
  The first step scales by the clipped ratio when both energies compare positive
  (\<^verbatim>\<open>target_features.get('energy', current_energy)\<close> defaults to the current energy); the
  second step follows in every case. No operation of the body raises on an array of
  floats.
\<close>

definition match_voice_dynamics :: "waveform \<Rightarrow> features \<Rightarrow> waveform" where
  "match_voice_dynamics audio target_features =
     (let current_energy = np_mean (map fl_sq audio);
          target_energy = (case energy target_features of
                             None \<Rightarrow> current_energy | Some e \<Rightarrow> e);
          audio1 = (if fl_gt current_energy (Fin 0) \<and> fl_gt target_energy (Fin 0)
                    then map (\<lambda>x. fl_mul x (energy_ratio target_energy current_energy)) audio
                    else audio)
      in rms_normalise audio1)"

section \<open>The libraries the stages call\<close>

text \<open>
  librosa, SciPy, soundfile and pyttsx3 are not part of the repository. Each call into
  them is a field of the record \<open>lib\<close>: a function from the call's arguments to either the
  exception it raises or the value it returns. The engine's own control flow, its guards
  and its arithmetic are modelled on top of these, for every such record.

  A short-time Fourier transform is kept in polar form, one row per frequency bin and one
  entry per frame: the pair is (\<^verbatim>\<open>np.abs\<close>, \<^verbatim>\<open>np.angle\<close>) of the complex bin. The stages
  change the first component only and hand \<^verbatim>\<open>magnitude * np.exp(1j * phase)\<close> to the
  inverse transform.
\<close>

type_synonym stft_matrix = "(npfloat \<times> npfloat) list list"

text \<open>
  What a path of the file system holds: nothing yet (a file of size zero), audio that
  \<^verbatim>\<open>librosa.load(path, sr=22050)\<close> decodes to the given waveform, or bytes that are not
  audio.
\<close>

datatype disk_file = EmptyFile | AudioFile waveform | OtherFile

record lib =
  voiced_f0_mean :: "waveform \<Rightarrow> py_error + npfloat"
  pitch_shift :: "waveform \<Rightarrow> nat \<Rightarrow> npfloat \<Rightarrow> py_error + waveform"
  stft :: "waveform \<Rightarrow> py_error + stft_matrix"
  istft :: "stft_matrix \<Rightarrow> py_error + waveform"
  spectral_centroid :: "waveform \<Rightarrow> nat \<Rightarrow> py_error + npfloat list"
  lowpass :: "real \<Rightarrow> waveform \<Rightarrow> py_error + waveform"
  frame_stats :: "waveform \<Rightarrow> nat \<Rightarrow>
     py_error + (npfloat \<times> npfloat \<times> npfloat list \<times> npfloat list \<times> npfloat list \<times> npfloat list list)"
  tts :: "nat list \<Rightarrow> py_error + disk_file option"
  new_temp :: "(string \<Rightarrow> disk_file option) \<Rightarrow> py_error + string"
  sf_write_error :: "waveform \<Rightarrow> nat \<Rightarrow> py_error option"

text \<open>
  \<^item> \<open>voiced_f0_mean\<close>: \<^verbatim>\<open>librosa.pyin\<close> between the notes \<^verbatim>\<open>C2\<close> and \<^verbatim>\<open>C7\<close>, followed by
    \<^verbatim>\<open>np.nanmean(current_f0[voiced_flag])\<close> (lines 168 to 171); NaN when no frame is voiced.
  \<^item> \<open>pitch_shift\<close>: \<^verbatim>\<open>librosa.effects.pitch_shift\<close> with 24 bins per octave; the third
    argument is \<^verbatim>\<open>n_steps\<close>.
  \<^item> \<open>stft\<close>, \<open>istft\<close>: \<^verbatim>\<open>librosa.stft\<close> and \<^verbatim>\<open>librosa.istft\<close> with \<^verbatim>\<open>n_fft = 2048\<close> and
    \<^verbatim>\<open>hop_length = 512\<close> (the defaults, which \<^verbatim>\<open>apply_formant_shifting\<close> spells out).
  \<^item> \<open>spectral_centroid\<close>: row 0 of \<^verbatim>\<open>librosa.feature.spectral_centroid\<close>.
  \<^item> \<open>lowpass\<close>: \<^verbatim>\<open>butter(4, wn, btype='low')\<close> followed by \<^verbatim>\<open>filtfilt\<close>.
  \<^item> \<open>frame_stats\<close>: the analysis calls of \<^verbatim>\<open>extract_voice_features\<close>, lines 38 to 48 and
    54 to 59: \<^verbatim>\<open>np.nanmean\<close> and \<^verbatim>\<open>np.nanstd\<close> of the pitch track, the per-frame spectral
    centroid, rolloff and zero-crossing rate, and the MFCC matrix (13 rows).
  \<^item> \<open>tts\<close>: \<^verbatim>\<open>save_to_file\<close> and \<^verbatim>\<open>runAndWait\<close> of pyttsx3 on a text (its code points): the
    exception raised, or what the target path holds afterwards (\<open>None\<close>: no file).
  \<^item> \<open>new_temp\<close>: the name \<^verbatim>\<open>tempfile.NamedTemporaryFile(delete=False, suffix=".wav")\<close>
    picks on the given file system.
  \<^item> \<open>sf_write_error\<close>: the exception \<^verbatim>\<open>sf.write\<close> raises on a signal, if any.
\<close>

text \<open>Sequencing inside a \<^verbatim>\<open>try\<close> block: the first exception ends the block.\<close>

definition and_then :: "'e + 'a \<Rightarrow> ('a \<Rightarrow> 'e + 'b) \<Rightarrow> 'e + 'b" where
  "and_then r f = (case r of Inl e \<Rightarrow> Inl e | Inr x \<Rightarrow> f x)"

text \<open>
  \<^verbatim>\<open>try: ... return <value> except Exception: return audio\<close>, the shape of every stage.
\<close>

definition or_else :: "'e + 'a \<Rightarrow> 'a \<Rightarrow> 'a" where
  "or_else r fallback = (case r of Inl e \<Rightarrow> fallback | Inr x \<Rightarrow> x)"

text \<open>
  \<^verbatim>\<open>librosa.fft_frequencies(sr=sr, n_fft=2048)\<close>: the 1025 bin centres \<open>k * sr / 2048\<close>.
\<close>

definition fft_frequencies :: "nat \<Rightarrow> real list" where
  "fft_frequencies sr = map (\<lambda>k. real k * real sr / 2048) [0..<1025]"

text \<open>
  \<^verbatim>\<open>magnitude *= gain.reshape(-1, 1)\<close>: row \<open>k\<close> of the magnitude is multiplied by
  \<open>gain[k]\<close>. NumPy broadcasts in place only when the row counts agree (the gain has 1025
  rows, never one), and raises \<^verbatim>\<open>ValueError\<close> otherwise.
\<close>

definition scale_rows :: "npfloat list \<Rightarrow> stft_matrix \<Rightarrow> py_error + stft_matrix" where
  "scale_rows gain S =
     (if length gain = length S
      then Inr (map2 (\<lambda>g row. map (\<lambda>(m, ph). (fl_mul m g, ph)) row) gain S)
      else Inl ValueError)"

section \<open>The five transformation stages\<close>

subsection \<open>Pitch transformation, lines 161 to 189\<close>

definition pitch_ratio :: "npfloat \<Rightarrow> npfloat \<Rightarrow> npfloat" where
  "pitch_ratio target_f0 current_f0_mean = np_clip (fl_div target_f0 current_f0_mean) (1 / 2) 2"

definition pitch_shift_semitones :: "npfloat \<Rightarrow> npfloat \<Rightarrow> npfloat" where
  "pitch_shift_semitones target_f0 current_f0_mean =
     fl_mul (Fin 12) (np_log2 (pitch_ratio target_f0 current_f0_mean))"

definition pitch_body :: "lib \<Rightarrow> waveform \<Rightarrow> nat \<Rightarrow> features \<Rightarrow> py_error + waveform" where
  "pitch_body L audio sr target_features =
     (case f0_mean target_features of
        None \<Rightarrow> Inl KeyError
      | Some target_f0 \<Rightarrow>
          if np_isnan target_f0 then Inr audio
          else and_then (voiced_f0_mean L audio) (\<lambda>current_f0_mean.
            if np_isnan current_f0_mean \<or> fl_le current_f0_mean (Fin 0) then Inr audio
            else pitch_shift L audio sr (pitch_shift_semitones target_f0 current_f0_mean)))"

definition apply_pitch_transformation :: "lib \<Rightarrow> waveform \<Rightarrow> nat \<Rightarrow> features \<Rightarrow> waveform" where
  "apply_pitch_transformation L audio sr target_features =
     or_else (pitch_body L audio sr target_features) audio"

subsection \<open>Spectral envelope modification, lines 298 to 329\<close>

definition centroid_ratio :: "npfloat \<Rightarrow> npfloat \<Rightarrow> npfloat" where
  "centroid_ratio target_centroid current_centroid =
     np_clip (fl_div target_centroid current_centroid) (8 / 10) (12 / 10)"

text \<open>Line 318, the Gaussian weight of one bin, and line 320, its gain.\<close>

definition freq_weight :: "npfloat \<Rightarrow> real \<Rightarrow> npfloat" where
  "freq_weight target_centroid f =
     np_exp (fl_mul (Fin (- (1 / 2)))
       (fl_sq (fl_div (fl_sub (Fin f) target_centroid) (fl_mul target_centroid (Fin (3 / 10))))))"

definition envelope_gain :: "npfloat \<Rightarrow> npfloat \<Rightarrow> real \<Rightarrow> npfloat" where
  "envelope_gain target_centroid current_centroid f =
     fl_add (Fin 1)
       (fl_mul (fl_mul (fl_sub (centroid_ratio target_centroid current_centroid) (Fin 1))
                  (freq_weight target_centroid f)) (Fin (3 / 10)))"

definition envelope_body :: "lib \<Rightarrow> waveform \<Rightarrow> nat \<Rightarrow> features \<Rightarrow> py_error + waveform" where
  "envelope_body L audio sr target_features =
     and_then (stft L audio) (\<lambda>S.
     and_then (spectral_centroid L audio sr) (\<lambda>frames.
       let current_centroid = np_mean frames in
       case spectral_centroid_mean target_features of
         None \<Rightarrow> Inl KeyError
       | Some target_centroid \<Rightarrow>
           and_then
             (if fl_gt current_centroid (Fin 0) \<and> fl_gt target_centroid (Fin 0)
              then scale_rows (map (envelope_gain target_centroid current_centroid)
                                 (fft_frequencies sr)) S
              else Inr S)
             (istft L)))"

definition modify_spectral_envelope :: "lib \<Rightarrow> waveform \<Rightarrow> nat \<Rightarrow> features \<Rightarrow> waveform" where
  "modify_spectral_envelope L audio sr target_features =
     or_else (envelope_body L audio sr target_features) audio"

subsection \<open>Formant shifting, lines 191 to 216\<close>

definition formant_gain :: "real \<Rightarrow> real \<Rightarrow> npfloat" where
  "formant_gain formant_freq f =
     fl_add (Fin 1)
       (fl_mul (np_exp (fl_mul (Fin (- (1 / 2)))
                  (fl_sq (fl_div (fl_sub (Fin f) (Fin formant_freq))
                            (fl_mul (Fin formant_freq) (Fin (1 / 10)))))))
               (Fin (2 / 10)))"

text \<open>The loop of lines 204 to 209 over \<^verbatim>\<open>target_features['formants'][:3]\<close>.\<close>

fun emphasise :: "nat \<Rightarrow> real list \<Rightarrow> stft_matrix \<Rightarrow> py_error + stft_matrix" where
  "emphasise sr [] S = Inr S"
| "emphasise sr (formant_freq # rest) S =
     (if 0 < formant_freq
      then and_then (scale_rows (map (formant_gain formant_freq) (fft_frequencies sr)) S)
             (emphasise sr rest)
      else emphasise sr rest S)"

definition formant_body :: "lib \<Rightarrow> waveform \<Rightarrow> nat \<Rightarrow> features \<Rightarrow> py_error + waveform" where
  "formant_body L audio sr target_features =
     and_then (stft L audio) (\<lambda>S.
       and_then
         (case formants target_features of
            None \<Rightarrow> Inr S
          | Some fs \<Rightarrow> if 0 < length fs then emphasise sr (take 3 fs) S else Inr S)
         (istft L))"

definition apply_formant_shifting :: "lib \<Rightarrow> waveform \<Rightarrow> nat \<Rightarrow> features \<Rightarrow> waveform" where
  "apply_formant_shifting L audio sr target_features =
     or_else (formant_body L audio sr target_features) audio"

subsection \<open>Voice texture adjustment, lines 218 to 244\<close>

definition spectral_tilt :: "npfloat \<Rightarrow> npfloat \<Rightarrow> real \<Rightarrow> npfloat" where
  "spectral_tilt target_centroid current_centroid f =
     np_exp (fl_mul (fl_mul (np_log (fl_div target_centroid current_centroid)) (Fin (1 / 10)))
               (np_log (Fin (f + 1))))"

definition texture_body :: "lib \<Rightarrow> waveform \<Rightarrow> nat \<Rightarrow> features \<Rightarrow> py_error + waveform" where
  "texture_body L audio sr target_features =
     and_then (stft L audio) (\<lambda>S.
       let target_centroid = (case spectral_centroid_mean target_features of
                                None \<Rightarrow> Fin 2000 | Some c \<Rightarrow> c) in
       and_then (spectral_centroid L audio sr) (\<lambda>frames.
         let current_centroid = np_mean frames in
         and_then
           (if fl_gt current_centroid (Fin 0) \<and> fl_gt target_centroid (Fin 0)
            then scale_rows (map (spectral_tilt target_centroid current_centroid)
                               (fft_frequencies sr)) S
            else Inr S)
           (istft L)))"

definition adjust_voice_texture :: "lib \<Rightarrow> waveform \<Rightarrow> nat \<Rightarrow> features \<Rightarrow> waveform" where
  "adjust_voice_texture L audio sr target_features =
     or_else (texture_body L audio sr target_features) audio"

section \<open>The quality enhancer, lines 269 to 296\<close>

text \<open>
  \<^verbatim>\<open>np.maximum\<close> propagates NaN, and \<^verbatim>\<open>np.max\<close> of an empty array raises \<^verbatim>\<open>ValueError\<close>.
\<close>

definition np_maximum :: "npfloat \<Rightarrow> npfloat \<Rightarrow> npfloat" where
  "np_maximum a b = (if np_isnan a \<or> np_isnan b then NaN else if fl_less a b then b else a)"

fun np_max :: "npfloat list \<Rightarrow> py_error + npfloat" where
  "np_max [] = Inl ValueError"
| "np_max (x # xs) = Inr (foldl np_maximum x xs)"

text \<open>
  Lines 279 to 286: a sample above the threshold 0.1 (in absolute value) is replaced by
  \<^verbatim>\<open>np.sign(x) * (threshold + (|x| - threshold) / ratio)\<close> with ratio 3.
\<close>

definition compress :: "npfloat \<Rightarrow> npfloat" where
  "compress x =
     (if fl_gt (fl_abs x) (Fin (1 / 10))
      then fl_mul (np_sign x)
             (fl_add (Fin (1 / 10)) (fl_div (fl_sub (fl_abs x) (Fin (1 / 10))) (Fin 3)))
      else x)"

text \<open>
  Lines 273 to 275: \<^verbatim>\<open>nyquist = sr / 2\<close>, \<^verbatim>\<open>cutoff = min(8000, nyquist * 0.9)\<close> and the
  normalised cutoff \<^verbatim>\<open>cutoff / nyquist\<close> on Python floats, where a zero divisor raises.
\<close>

definition normalised_cutoff :: "nat \<Rightarrow> py_error + real" where
  "normalised_cutoff sr =
     (let nyquist = real sr / 2; cutoff = min 8000 (nyquist * (9 / 10))
      in if nyquist = 0 then Inl ZeroDivisionError else Inr (cutoff / nyquist))"

text \<open>
  After line 276 the name \<^verbatim>\<open>audio\<close> is bound to the filtered signal, so an exception
  raised later in the \<^verbatim>\<open>try\<close> returns the filtered signal, not the argument.
\<close>

definition normalise_peak :: "waveform \<Rightarrow> py_error + waveform" where
  "normalise_peak compressed_audio =
     and_then (np_max (map fl_abs compressed_audio)) (\<lambda>max_val.
       Inr (if fl_gt max_val (Fin 0)
            then map (\<lambda>x. fl_mul (fl_div x max_val) (Fin (8 / 10))) compressed_audio
            else compressed_audio))"

text \<open>
  Line 276. The filter of order 4 has five coefficients on each side, and SciPy's
  \<^verbatim>\<open>filtfilt\<close> pads the signal by \<^verbatim>\<open>3 * max(len(a), len(b))\<close>, 15 samples: it raises
  \<^verbatim>\<open>ValueError\<close> unless the signal is longer than that. What it returns on a longer
  signal is the library's.
\<close>

definition filtfilt_lowpass :: "lib \<Rightarrow> real \<Rightarrow> waveform \<Rightarrow> py_error + waveform" where
  "filtfilt_lowpass L wn audio =
     (if length audio \<le> 15 then Inl ValueError else lowpass L wn audio)"

definition enhance_filter :: "lib \<Rightarrow> waveform \<Rightarrow> nat \<Rightarrow> py_error + waveform" where
  "enhance_filter L audio sr =
     and_then (normalised_cutoff sr) (\<lambda>wn. filtfilt_lowpass L wn audio)"

text \<open>The whole \<^verbatim>\<open>try\<close> block of the enhancer, lines 272 to 293.\<close>

definition enhance_body :: "lib \<Rightarrow> waveform \<Rightarrow> nat \<Rightarrow> py_error + waveform" where
  "enhance_body L audio sr =
     and_then (enhance_filter L audio sr) (\<lambda>filtered. normalise_peak (map compress filtered))"

definition enhance_voice_quality :: "lib \<Rightarrow> waveform \<Rightarrow> nat \<Rightarrow> waveform" where
  "enhance_voice_quality L audio sr =
     (case enhance_filter L audio sr of
        Inl e \<Rightarrow> audio
      | Inr filtered \<Rightarrow> or_else (normalise_peak (map compress filtered)) filtered)"

text \<open>The compressor of lines 279 to 286 on a finite sample, as a function on the reals.\<close>

definition compress_real :: "real \<Rightarrow> real" where
  "compress_real y = (if 1 / 10 < \<bar>y\<bar> then sgn y * (1 / 10 + (\<bar>y\<bar> - 1 / 10) / 3) else y)"

section \<open>The cascade, lines 129 to 159\<close>

text \<open>
  \<^verbatim>\<open>apply_voice_transformation\<close> after it has loaded the base audio: the six steps in
  their fixed order. No stage raises, each having its own \<^verbatim>\<open>try\<close>.
\<close>

definition transform_cascade :: "lib \<Rightarrow> waveform \<Rightarrow> nat \<Rightarrow> features \<Rightarrow> waveform" where
  "transform_cascade L base_audio sr target_features =
     (let a1 = apply_pitch_transformation L base_audio sr target_features;
          a2 = modify_spectral_envelope L a1 sr target_features;
          a3 = apply_formant_shifting L a2 sr target_features;
          a4 = adjust_voice_texture L a3 sr target_features;
          a5 = match_voice_dynamics a4 target_features
      in enhance_voice_quality L a5 sr)"

section \<open>Formant estimation, lines 71 to 97\<close>

text \<open>
  \<^verbatim>\<open>np.fft.fftfreq(len(audio), 1/sr)\<close>. The sample rate is a Python \<^verbatim>\<open>int\<close>, so \<^verbatim>\<open>1/sr\<close> raises
  on zero; \<^verbatim>\<open>fftfreq\<close> computes \<^verbatim>\<open>1.0 / (n * d)\<close> on Python floats and raises on \<open>n = 0\<close>.
  The first \<open>(n - 1) div 2 + 1\<close> entries are the non-negative frequencies \<open>i * sr / n\<close>,
  the others the negative ones.
\<close>

definition fftfreq :: "nat \<Rightarrow> nat \<Rightarrow> py_error + real list" where
  "fftfreq n sr =
     (if sr = 0 \<or> n = 0 then Inl ZeroDivisionError
      else Inr (map (\<lambda>i. if i < (n - 1) div 2 + 1 then real i * real sr / real n
                          else - real (n - i) * real sr / real n) [0..<n]))"

text \<open>
  \<^verbatim>\<open>np.abs(np.fft.fft(audio)) ** 2\<close>: bin \<open>k\<close> of the discrete Fourier transform has the real
  part \<open>\<Sum> x[n] cos (2 pi k n / N)\<close> and the imaginary part \<open>- \<Sum> x[n] sin (2 pi k n / N)\<close>;
  its squared modulus is the sum of their squares.
\<close>

definition dft_sum :: "(real \<Rightarrow> real) \<Rightarrow> waveform \<Rightarrow> nat \<Rightarrow> npfloat" where
  "dft_sum trig audio k =
     foldl fl_add (Fin 0)
       (map (\<lambda>(n, x). fl_mul x (Fin (trig (2 * pi * real k * real n / real (length audio)))))
          (enumerate 0 audio))"

definition power_spectrum :: "waveform \<Rightarrow> npfloat list" where
  "power_spectrum audio =
     map (\<lambda>k. fl_add (fl_sq (dft_sum cos audio k)) (fl_sq (dft_sum sin audio k)))
       [0..<length audio]"

text \<open>
  \<^verbatim>\<open>scipy.signal.find_peaks(x, height=h)\<close>. SciPy walks the array once: a sample that is
  strictly greater than its left neighbour opens a plateau, the plateau is followed while
  the samples stay equal, and it is a peak (reported at its midpoint) when the sample after
  it is strictly smaller. The first and the last sample are never peaks, and a constant
  array has none. The peaks whose height is at least \<open>h\<close> are kept.
\<close>

fun fl_eq :: "npfloat \<Rightarrow> npfloat \<Rightarrow> bool" where
  "fl_eq (Fin x) (Fin y) = (x = y)"
| "fl_eq PInf PInf = True"
| "fl_eq NInf NInf = True"
| "fl_eq _ _ = False"

function skip_plateau :: "npfloat list \<Rightarrow> npfloat \<Rightarrow> nat \<Rightarrow> nat" where
  "skip_plateau x v i_ahead =
     (if i_ahead < length x - 1 \<and> fl_eq (x ! i_ahead) v
      then skip_plateau x v (Suc i_ahead) else i_ahead)"
  by pat_completeness auto
termination
  by (relation "measure (\<lambda>(x, v, i_ahead). length x - 1 - i_ahead)") auto

declare skip_plateau.simps [simp del]

lemma skip_plateau_ge: "i \<le> skip_plateau x v i"
proof (induction x v i rule: skip_plateau.induct)
  case (1 x v i_ahead)
  show ?case
  proof (cases "i_ahead < length x - 1 \<and> fl_eq (x ! i_ahead) v")
    case True
    then have "Suc i_ahead \<le> skip_plateau x v (Suc i_ahead)" using "1.IH" by simp
    then show ?thesis using True by (subst skip_plateau.simps) simp
  next
    case False
    then show ?thesis by (subst skip_plateau.simps) auto
  qed
qed

function local_maxima :: "npfloat list \<Rightarrow> nat \<Rightarrow> nat list" where
  "local_maxima x i =
     (if i < length x - 1
      then if fl_less (x ! (i - 1)) (x ! i)
           then if fl_less (x ! skip_plateau x (x ! i) (i + 1)) (x ! i)
                then ((i + (skip_plateau x (x ! i) (i + 1) - 1)) div 2)
                       # local_maxima x (skip_plateau x (x ! i) (i + 1) + 1)
                else local_maxima x (i + 1)
           else local_maxima x (i + 1)
      else [])"
  by pat_completeness auto
termination
proof (relation "measure (\<lambda>(x, i). length x - 1 - i)")
  fix x :: "npfloat list" and i :: nat
  assume "i < length x - 1"
  moreover have "i + 1 \<le> skip_plateau x (x ! i) (i + 1)" by (rule skip_plateau_ge)
  ultimately show "((x, skip_plateau x (x ! i) (i + 1) + 1), x, i) \<in> measure (\<lambda>(x, i). length x - 1 - i)"
    by simp
qed auto

declare local_maxima.simps [simp del]

definition find_peaks :: "npfloat list \<Rightarrow> npfloat \<Rightarrow> nat list" where
  "find_peaks x height = filter (\<lambda>p. fl_le height (x ! p)) (local_maxima x 1)"

text \<open>
  \<^verbatim>\<open>np.argsort\<close>: the indices in ascending order of their values, NaN last. The model
  sorts stably; NumPy's default sort leaves the order of equal values open.
\<close>

fun sort_rank :: "npfloat \<Rightarrow> nat \<times> real" where
  "sort_rank NInf = (0, 0)"
| "sort_rank (Fin x) = (1, x)"
| "sort_rank PInf = (2, 0)"
| "sort_rank NaN = (3, 0)"

definition argsort :: "npfloat list \<Rightarrow> nat list" where
  "argsort ks = sort_key (\<lambda>i. sort_rank (ks ! i)) [0..<length ks]"

text \<open>
  Lines 84 to 88: the peaks of the non-negative half of the power spectrum that reach a
  tenth of its maximum. \<^verbatim>\<open>np.max\<close> raises on the empty half.
\<close>

definition spectral_peaks :: "npfloat list \<Rightarrow> py_error + nat list" where
  "spectral_peaks positive_power =
     and_then (np_max positive_power) (\<lambda>mx.
       Inr (find_peaks positive_power (fl_mul mx (Fin (1 / 10)))))"

definition formants_body :: "waveform \<Rightarrow> nat \<Rightarrow> nat \<Rightarrow> py_error + real list" where
  "formants_body audio sr n_formants =
     and_then (fftfreq (length audio) sr) (\<lambda>freqs.
       let power = power_spectrum audio;
           positive_freqs = take (length freqs div 2) freqs;
           positive_power = take (length power div 2) power
       in and_then (spectral_peaks positive_power) (\<lambda>peaks.
            let peak_freqs = map (\<lambda>p. positive_freqs ! p) peaks;
                peak_powers = map (\<lambda>p. positive_power ! p) peaks;
                sorted_indices = rev (argsort peak_powers);
                top = map (\<lambda>i. peak_freqs ! i) (take n_formants sorted_indices)
            in Inr (sort top)))"

text \<open>Line 97, the default of the \<^verbatim>\<open>except\<close> branch.\<close>

definition default_formants :: "real list" where
  "default_formants = [500, 1500, 2500, 3500]"

definition estimate_formants :: "waveform \<Rightarrow> nat \<Rightarrow> nat \<Rightarrow> real list" where
  "estimate_formants audio sr n_formants =
     or_else (formants_body audio sr n_formants) default_formants"

section \<open>Feature extraction, lines 31 to 69\<close>

text \<open>
  \<^verbatim>\<open>librosa.load(path, sr=22050)\<close> on the file system: the decoded waveform, or an exception
  when the path holds no audio.
\<close>

definition load_audio :: "(string \<Rightarrow> disk_file option) \<Rightarrow> string \<Rightarrow> py_error + waveform" where
  "load_audio d path = (case d path of Some (AudioFile a) \<Rightarrow> Inr a | _ \<Rightarrow> Inl LibraryError)"

text \<open>
  Lines 35 to 65: the analysis calls, the formant estimate (which never raises) and the
  dictionary, every key present. The sample rate is the constant 22050.
\<close>

definition features_of :: "lib \<Rightarrow> waveform \<Rightarrow> py_error + features" where
  "features_of L audio =
     and_then (frame_stats L audio 22050) (\<lambda>(f0m, f0s, centroids, rolloff, zcr, mfccs).
       Inr \<lparr>f0_mean = Some f0m, f0_std = Some f0s,
            spectral_centroid_mean = Some (np_mean centroids),
            spectral_rolloff_mean = Some (np_mean rolloff),
            zero_crossing_rate_mean = Some (np_mean zcr),
            mfccs_mean = Some (map np_mean mfccs),
            formants = Some (estimate_formants audio 22050 4),
            duration = Some (fl_div (Fin (real (length audio))) (Fin 22050)),
            energy = Some (np_mean (map fl_sq audio))\<rparr>)"

text \<open>
  The result of \<^verbatim>\<open>extract_voice_features\<close>: \<open>None\<close> is the triple \<^verbatim>\<open>(None, None, None)\<close> of
  the \<^verbatim>\<open>except\<close> branch.
\<close>

definition extraction :: "lib \<Rightarrow> (string \<Rightarrow> disk_file option) \<Rightarrow> string \<Rightarrow>
    (features \<times> waveform \<times> nat) option" where
  "extraction L d audio_path =
     (case and_then (load_audio d audio_path) (\<lambda>audio.
             and_then (features_of L audio) (\<lambda>fs. Inr (fs, audio, 22050))) of
        Inl e \<Rightarrow> None
      | Inr r \<Rightarrow> Some r)"

text \<open>The truth value of a dictionary: it has a key.\<close>

definition dict_truthy :: "features \<Rightarrow> bool" where
  "dict_truthy fs =
     (f0_mean fs \<noteq> None \<or> f0_std fs \<noteq> None \<or> spectral_centroid_mean fs \<noteq> None \<or>
      spectral_rolloff_mean fs \<noteq> None \<or> zero_crossing_rate_mean fs \<noteq> None \<or>
      mfccs_mean fs \<noteq> None \<or> formants fs \<noteq> None \<or> duration fs \<noteq> None \<or>
      energy fs \<noteq> None)"

section \<open>The engine and its surroundings\<close>

text \<open>
  The attributes of a \<^verbatim>\<open>VoiceCloningEngine\<close>. \<open>pyttsx3_engine\<close> tells whether
  \<^verbatim>\<open>init_tts_engine\<close> obtained an engine; \<open>last_reference_path\<close> is \<open>None\<close> until
  \<^verbatim>\<open>clone_voice\<close> sets the attribute (\<^verbatim>\<open>getattr(self, 'last_reference_path', None)\<close>).
\<close>

record engine =
  reference_features :: "features option"
  reference_audio :: "waveform option"
  reference_sr :: "nat option"
  pyttsx3_engine :: bool
  last_reference_path :: "string option"

text \<open>
  What the engine acts on: the file system, the messages shown through Streamlit
  (\<^verbatim>\<open>st.error\<close>, \<^verbatim>\<open>st.warning\<close>, \<^verbatim>\<open>st.success\<close>; progress, metrics and info lines are left
  out), and, as instrumentation, the paths \<^verbatim>\<open>extract_voice_features\<close> was called on.
\<close>

datatype ui_msg = UiError string | UiWarning string | UiSuccess string

record world =
  disk :: "string \<Rightarrow> disk_file option"
  ui_log :: "ui_msg list"
  extract_calls :: "string list"

definition say :: "ui_msg \<Rightarrow> world \<Rightarrow> world" where
  "say m w = w\<lparr>ui_log := ui_log w @ [m]\<rparr>"

definition extract_voice_features :: "lib \<Rightarrow> string \<Rightarrow> world \<Rightarrow>
    (features \<times> waveform \<times> nat) option \<times> world" where
  "extract_voice_features L audio_path w =
     (let w1 = w\<lparr>extract_calls := extract_calls w @ [audio_path]\<rparr>
      in case extraction L (disk w) audio_path of
           None \<Rightarrow> (None, say (UiError ''Error extracting voice features'') w1)
         | Some r \<Rightarrow> (Some r, w1))"

text \<open>\<^verbatim>\<open>load_reference_voice\<close>, lines 99 to 107.\<close>

definition load_reference_voice :: "lib \<Rightarrow> string \<Rightarrow> engine \<times> world \<Rightarrow> bool \<times> engine \<times> world" where
  "load_reference_voice L audio_path s =
     (case s of (e, w) \<Rightarrow>
        case extract_voice_features L audio_path w of
          (Some (fs, audio, sr), w1) \<Rightarrow>
            if dict_truthy fs
            then (True, e\<lparr>reference_features := Some fs, reference_audio := Some audio,
                          reference_sr := Some sr\<rparr>, w1)
            else (False, e, w1)
        | (None, w1) \<Rightarrow> (False, e, w1))"

text \<open>
  \<^verbatim>\<open>synthesize_base_speech\<close>, lines 109 to 127. The temporary file exists, empty, from the
  moment its name is taken; the path is returned when the file is there and not empty
  after the speech engine ran.
\<close>

fun file_size_positive :: "disk_file \<Rightarrow> bool" where
  "file_size_positive EmptyFile = False"
| "file_size_positive _ = True"

definition synthesize_base_speech :: "lib \<Rightarrow> nat list \<Rightarrow> engine \<Rightarrow> world \<Rightarrow> string option \<times> world" where
  "synthesize_base_speech L text e w =
     (if \<not> pyttsx3_engine e then (None, w)
      else case new_temp L (disk w) of
             Inl err \<Rightarrow> (None, say (UiWarning ''Base speech synthesis failed'') w)
           | Inr base_path \<Rightarrow>
               let w1 = w\<lparr>disk := (disk w)(base_path \<mapsto> EmptyFile)\<rparr>
               in case tts L text of
                    Inl err \<Rightarrow> (None, say (UiWarning ''Base speech synthesis failed'') w1)
                  | Inr after \<Rightarrow>
                      let w2 = w1\<lparr>disk := (disk w1)(base_path := after)\<rparr>
                      in case after of
                           None \<Rightarrow> (None, w2)
                         | Some f \<Rightarrow> if file_size_positive f then (Some base_path, w2)
                                     else (None, w2))"

text \<open>
  \<^verbatim>\<open>apply_voice_transformation\<close>, lines 129 to 159. The stages do not raise, so the \<^verbatim>\<open>try\<close>
  fails only in \<^verbatim>\<open>librosa.load\<close>; the \<^verbatim>\<open>except\<close> branch then loads the same file again
  outside any \<^verbatim>\<open>try\<close>. With no dictionary as target (\<^verbatim>\<open>None\<close>) every stage with a target
  raises on its first use of it and returns its input, and only the enhancer acts.
\<close>

definition transform_with :: "lib \<Rightarrow> waveform \<Rightarrow> nat \<Rightarrow> features option \<Rightarrow> waveform" where
  "transform_with L base_audio sr target =
     (case target of
        None \<Rightarrow> enhance_voice_quality L base_audio sr
      | Some target_features \<Rightarrow> transform_cascade L base_audio sr target_features)"

definition apply_voice_transformation :: "lib \<Rightarrow> string \<Rightarrow> features option \<Rightarrow> world \<Rightarrow>
    (py_error + waveform \<times> nat) \<times> world" where
  "apply_voice_transformation L base_audio_path target w =
     (case load_audio (disk w) base_audio_path of
        Inr base_audio \<Rightarrow> (Inr (transform_with L base_audio 22050 target, 22050), w)
      | Inl err \<Rightarrow>
          (case load_audio (disk w) base_audio_path of
             Inr base_audio \<Rightarrow> Inr (base_audio, 22050)
           | Inl err2 \<Rightarrow> Inl err2,
           say (UiWarning ''Voice transformation failed'') w))"

section \<open>The clone operation, lines 331 to 422\<close>

text \<open>
  The text is a Python string, a list of code points. \<^verbatim>\<open>str.strip()\<close> removes the leading
  and trailing white space, which for Python is the following code points.
\<close>

definition py_isspace :: "nat \<Rightarrow> bool" where
  "py_isspace c =
     ((9 \<le> c \<and> c \<le> 13) \<or> (28 \<le> c \<and> c \<le> 32) \<or> c = 133 \<or> c = 160 \<or> c = 5760 \<or>
      (8192 \<le> c \<and> c \<le> 8202) \<or> c = 8232 \<or> c = 8233 \<or> c = 8239 \<or> c = 8287 \<or> c = 12288)"

definition py_strip :: "nat list \<Rightarrow> nat list" where
  "py_strip text = rev (dropWhile py_isspace (rev (dropWhile py_isspace text)))"

text \<open>
  Lines 339 to 373, the reference block. It ends in one of three ways: the operation goes
  on, it returns \<^verbatim>\<open>None\<close> (the analysis failed), or an exception reaches the outer \<^verbatim>\<open>try\<close>
  (the display of lines 353 to 358 reads the keys \<^verbatim>\<open>f0_mean\<close>,
  \<^verbatim>\<open>spectral_centroid_mean\<close> and \<^verbatim>\<open>duration\<close>).
\<close>

datatype step = Proceed | ReturnNone | Raises py_error

definition needs_analysis :: "engine \<Rightarrow> string \<Rightarrow> bool" where
  "needs_analysis e reference_audio_path =
     ((case reference_features e of None \<Rightarrow> True | Some fs \<Rightarrow> \<not> dict_truthy fs) \<or>
      Some reference_audio_path \<noteq> last_reference_path e)"

definition display_analysis :: "engine \<Rightarrow> step" where
  "display_analysis e =
     (case reference_features e of
        None \<Rightarrow> Raises TypeError
      | Some fs \<Rightarrow>
          if f0_mean fs = None \<or> spectral_centroid_mean fs = None \<or> duration fs = None
          then Raises KeyError else Proceed)"

definition reference_block :: "lib \<Rightarrow> string \<Rightarrow> engine \<times> world \<Rightarrow> step \<times> engine \<times> world" where
  "reference_block L reference_audio_path s =
     (case s of (e, w) \<Rightarrow>
        if needs_analysis e reference_audio_path
        then case load_reference_voice L reference_audio_path (e, w) of
               (False, e1, w1) \<Rightarrow>
                 (ReturnNone, e1, say (UiError ''Failed to analyze reference voice'') w1)
             | (True, e1, w1) \<Rightarrow>
                 let e2 = e1\<lparr>last_reference_path := Some reference_audio_path\<rparr>
                 in (display_analysis e2, e2, say (UiSuccess ''Reference voice analyzed!'') w1)
        else (Proceed, e, w))"

text \<open>
  Lines 403 to 418: the output file is created empty, \<^verbatim>\<open>sf.write\<close> fills it, and only then
  is the base file unlinked (an error of \<^verbatim>\<open>os.unlink\<close> is ignored).
\<close>

definition save_and_clean :: "lib \<Rightarrow> string \<Rightarrow> waveform \<Rightarrow> nat \<Rightarrow> world \<Rightarrow>
    (py_error + string) \<times> world" where
  "save_and_clean L base_audio_path cloned_audio sr w =
     (case new_temp L (disk w) of
        Inl err \<Rightarrow> (Inl err, w)
      | Inr output_path \<Rightarrow>
          let w1 = w\<lparr>disk := (disk w)(output_path \<mapsto> EmptyFile)\<rparr>
          in case sf_write_error L cloned_audio sr of
               Some err \<Rightarrow> (Inl err, w1)
             | None \<Rightarrow>
                 let w2 = w1\<lparr>disk := (disk w1)(output_path \<mapsto> AudioFile cloned_audio)\<rparr>;
                     w3 = w2\<lparr>disk := (disk w2)(base_audio_path := None)\<rparr>
                 in (Inr output_path, say (UiSuccess ''Advanced voice cloning completed!'') w3))"

text \<open>Lines 375 to 418, after the reference block went on.\<close>

definition synthesis_block :: "lib \<Rightarrow> nat list \<Rightarrow> engine \<Rightarrow> world \<Rightarrow> string option \<times> world" where
  "synthesis_block L text e w =
     (case synthesize_base_speech L text e w of
        (None, w1) \<Rightarrow> (None, say (UiError ''Failed to generate base speech'') w1)
      | (Some base_audio_path, w1) \<Rightarrow>
          case apply_voice_transformation L base_audio_path (reference_features e) w1 of
            (Inl err, w2) \<Rightarrow> (None, say (UiError ''Voice cloning failed'') w2)
          | (Inr (cloned_audio, sr), w2) \<Rightarrow>
              case save_and_clean L base_audio_path cloned_audio sr w2 of
                (Inl err, w3) \<Rightarrow> (None, say (UiError ''Voice cloning failed'') w3)
              | (Inr output_path, w3) \<Rightarrow> (Some output_path, w3))"

definition clone_voice :: "lib \<Rightarrow> nat list \<Rightarrow> string \<Rightarrow> engine \<times> world \<Rightarrow>
    string option \<times> engine \<times> world" where
  "clone_voice L text reference_audio_path s =
     (case s of (e, w) \<Rightarrow>
        if py_strip text = [] then (None, e, say (UiError ''Please enter text to synthesize'') w)
        else case reference_block L reference_audio_path (e, w) of
               (ReturnNone, e1, w1) \<Rightarrow> (None, e1, w1)
             | (Raises err, e1, w1) \<Rightarrow> (None, e1, say (UiError ''Voice cloning failed'') w1)
             | (Proceed, e1, w1) \<Rightarrow>
                 (case synthesis_block L text e1 w1 of (r, w2) \<Rightarrow> (r, e1, w2)))"

section \<open>The similarity score, lines 424 to 443\<close>

definition closeness :: "npfloat \<Rightarrow> npfloat \<Rightarrow> npfloat" where
  "closeness a b = fl_sub (Fin 1) (fl_div (fl_abs (fl_sub a b)) (py_max a b))"

definition subscript :: "'a option \<Rightarrow> py_error + 'a" where
  "subscript v = (case v of None \<Rightarrow> Inl KeyError | Some x \<Rightarrow> Inr x)"

definition similarity_of :: "features \<Rightarrow> features \<Rightarrow> py_error + npfloat" where
  "similarity_of ref_features cloned_features =
     and_then (subscript (f0_mean ref_features)) (\<lambda>rf.
     and_then (subscript (f0_mean cloned_features)) (\<lambda>cf.
     and_then (subscript (spectral_centroid_mean ref_features)) (\<lambda>rc.
     and_then (subscript (spectral_centroid_mean cloned_features)) (\<lambda>cc.
       let pitch_similarity = closeness rf cf;
           spectral_similarity = closeness rc cc;
           similarity = fl_div (fl_add pitch_similarity spectral_similarity) (Fin 2)
       in Inr (py_max (Fin 0) (py_min (Fin 1) similarity))))))"

text \<open>
  Lines 431 to 440 on the two extraction results: 0.0 when either is missing (\<^verbatim>\<open>None\<close> or
  an empty dictionary), and 0.0 from the \<^verbatim>\<open>except\<close> branch.
\<close>

definition score_of :: "(features \<times> waveform \<times> nat) option \<Rightarrow>
    (features \<times> waveform \<times> nat) option \<Rightarrow> npfloat" where
  "score_of r c =
     (case (r, c) of
        (Some (ref_features, ra, rs), Some (cloned_features, ca, cs)) \<Rightarrow>
          if \<not> dict_truthy ref_features \<or> \<not> dict_truthy cloned_features then Fin 0
          else or_else (similarity_of ref_features cloned_features) (Fin 0)
      | _ \<Rightarrow> Fin 0)"

definition get_voice_similarity_score :: "lib \<Rightarrow> string \<Rightarrow> string \<Rightarrow> world \<Rightarrow> npfloat \<times> world" where
  "get_voice_similarity_score L cloned_audio_path reference_audio_path w =
     (case extract_voice_features L reference_audio_path w of (r, w1) \<Rightarrow>
      case extract_voice_features L cloned_audio_path w1 of (c, w2) \<Rightarrow>
        (score_of r c, w2))"

section \<open>Two library instances for the examples\<close>

text \<open>
  \<open>failing_lib\<close> raises on every call. \<open>echo_lib\<close> answers every call: its filter and its
  pitch shifter return the signal as it is, its transform is a single row holding the
  samples, and its analysis reports a voiced pitch of 120 Hz and a centroid of 1000 Hz;
  its speech engine writes one sample per character, its temporary files are
  \<^verbatim>\<open>/tmp/a.wav\<close> and then \<^verbatim>\<open>/tmp/b.wav\<close>, and its writes succeed.
\<close>

definition failing_lib :: lib where
  "failing_lib =
     \<lparr>voiced_f0_mean = (\<lambda>a. Inl LibraryError),
      pitch_shift = (\<lambda>a sr n. Inl LibraryError),
      stft = (\<lambda>a. Inl LibraryError),
      istft = (\<lambda>S. Inl LibraryError),
      spectral_centroid = (\<lambda>a sr. Inl LibraryError),
      lowpass = (\<lambda>wn a. Inl LibraryError),
      frame_stats = (\<lambda>a sr. Inl LibraryError),
      tts = (\<lambda>text. Inl LibraryError),
      new_temp = (\<lambda>d. Inl LibraryError),
      sf_write_error = (\<lambda>a sr. Some LibraryError)\<rparr>"

definition echo_lib :: lib where
  "echo_lib =
     \<lparr>voiced_f0_mean = (\<lambda>a. Inr (Fin 120)),
      pitch_shift = (\<lambda>a sr n. Inr a),
      stft = (\<lambda>a. Inr [map (\<lambda>x. (x, Fin 0)) a]),
      istft = (\<lambda>S. Inr (concat (map (map fst) S))),
      spectral_centroid = (\<lambda>a sr. Inr [Fin 1000]),
      lowpass = (\<lambda>wn a. Inr a),
      frame_stats = (\<lambda>a sr. Inr (Fin 120, Fin 10, [Fin 1000], [Fin 3000], [Fin (1 / 10)],
                                  replicate 13 [Fin 0])),
      tts = (\<lambda>text. Inr (Some (AudioFile (map (\<lambda>c. Fin (real c)) text)))),
      new_temp = (\<lambda>d. if d ''/tmp/a.wav'' = None then Inr ''/tmp/a.wav''
                      else Inr ''/tmp/b.wav''),
      sf_write_error = (\<lambda>a sr. None)\<rparr>"

text \<open>The empty dictionary.\<close>

definition no_features :: features where
  "no_features =
     \<lparr>f0_mean = None, f0_std = None, spectral_centroid_mean = None,
      spectral_rolloff_mean = None, zero_crossing_rate_mean = None, mfccs_mean = None,
      formants = None, duration = None, energy = None\<rparr>"

text \<open>
  A target whose features are all undefined or non-positive: the dictionary of a silent
  reference.
\<close>

definition silent_target :: features where
  "silent_target = no_features\<lparr>f0_mean := Some NaN, spectral_centroid_mean := Some (Fin 0),
     formants := Some [], energy := Some (Fin 0)\<rparr>"

text \<open>
  An engine right after \<^verbatim>\<open>__init__\<close> with a working speech engine, a file system that
  holds one reference recording, and a library whose \<^verbatim>\<open>sf.write\<close> raises.
\<close>

definition fresh_engine :: engine where
  "fresh_engine =
     \<lparr>reference_features = None, reference_audio = None, reference_sr = None,
      pyttsx3_engine = True, last_reference_path = None\<rparr>"

definition demo_world :: world where
  "demo_world =
     \<lparr>disk = [''ref.wav'' \<mapsto> AudioFile [Fin 1, Fin 2]], ui_log = [], extract_calls = []\<rparr>"

definition write_failing_lib :: lib where
  "write_failing_lib = echo_lib\<lparr>sf_write_error := (\<lambda>a sr. Some LibraryError)\<rparr>"

text \<open>
  A target far above what \<open>echo_lib\<close> reports for the base: ten times its pitch and its
  centroid, and a hundred times the energy of the one-sample signal \<open>[1.0]\<close>.
\<close>

definition far_target :: features where
  "far_target = no_features\<lparr>f0_mean := Some (Fin 1200),
     spectral_centroid_mean := Some (Fin 10000), energy := Some (Fin 100)\<rparr>"

text \<open>
  Sixteen samples whose spectrum has three peaks in its non-negative half: bins 2 and 6
  with power 16 and bin 4 with power 36, over a floor of 2.
\<close>

definition three_peak_audio :: waveform where
  "three_peak_audio =
     [Fin 3, Fin 0, Fin 0, Fin 0, Fin 1, Fin 0, Fin 0, Fin 0,
      Fin 2, Fin 0, Fin 0, Fin 0, Fin 0, Fin 0, Fin 0, Fin 0]"

section \<open>Clamped ratios\<close>

lemma clip_range: "lo \<le> hi \<Longrightarrow> lo \<le> min (max x lo) hi \<and> min (max x lo) hi \<le> (hi::real)"
  by auto

lemma ratios_clipped:
  assumes "0 < t" and "0 < c"
  shows "pitch_ratio (Fin t) (Fin c) = Fin (min (max (t / c) (1 / 2)) 2)"
    and "pitch_shift_semitones (Fin t) (Fin c) = Fin (12 * log 2 (min (max (t / c) (1 / 2)) 2))"
    and "centroid_ratio (Fin t) (Fin c) = Fin (min (max (t / c) (8 / 10)) (12 / 10))"
    and "energy_ratio (Fin t) (Fin c) = Fin (min (max (sqrt (t / c)) (3 / 10)) 3)"
proof -
  have nz: "c \<noteq> 0" using assms by simp
  have nn: "\<not> t / c < 0" using assms by (simp add: not_less)
  show p: "pitch_ratio (Fin t) (Fin c) = Fin (min (max (t / c) (1 / 2)) 2)"
    using nz by (simp add: pitch_ratio_def)
  have pos: "0 < min (max (t / c) (1 / 2)) (2::real)" by simp
  show "pitch_shift_semitones (Fin t) (Fin c) = Fin (12 * log 2 (min (max (t / c) (1 / 2)) 2))"
    unfolding pitch_shift_semitones_def p using pos by simp
  show "centroid_ratio (Fin t) (Fin c) = Fin (min (max (t / c) (8 / 10)) (12 / 10))"
    using nz by (simp add: centroid_ratio_def)
  show "energy_ratio (Fin t) (Fin c) = Fin (min (max (sqrt (t / c)) (3 / 10)) 3)"
    using nz nn by (simp add: energy_ratio_def)
qed

lemma pitch_stage_applies:
  assumes "0 < t" and "0 < c"
    and "f0_mean tf = Some (Fin t)" and "voiced_f0_mean L audio = Inr (Fin c)"
  shows "apply_pitch_transformation L audio sr tf =
           or_else (pitch_shift L audio sr (Fin (12 * log 2 (min (max (t / c) (1 / 2)) 2)))) audio"
  using assms(2)
  by (simp add: apply_pitch_transformation_def pitch_body_def assms(3,4) and_then_def
      ratios_clipped(2) [OF assms(1,2)])

lemma dynamics_stage_applies:
  assumes "0 < t" and "0 < c"
    and "energy tf = Some (Fin t)" and "np_mean (map fl_sq audio) = Fin c"
  shows "match_voice_dynamics audio tf =
           rms_normalise (map (\<lambda>x. fl_mul x (Fin (min (max (sqrt (t / c)) (3 / 10)) 3))) audio)"
  using assms(1,2)
  by (simp add: match_voice_dynamics_def assms(3,4) Let_def fl_gt_def
      ratios_clipped(4) [OF assms(1,2)])

lemma envelope_gain_clipped:
  assumes "0 < t" and "0 < c"
  shows "envelope_gain (Fin t) (Fin c) f =
           Fin (1 + (min (max (t / c) (8 / 10)) (12 / 10) - 1) *
                    exp (- (1 / 2) * ((f - t) / (t * (3 / 10))) ^ 2) * (3 / 10))"
  using assms(1)
  by (simp add: envelope_gain_def freq_weight_def fl_sub_def fl_sq_def power2_eq_square
      ratios_clipped(3) [OF assms(1,2)])

lemma envelope_stage_applies:
  assumes "0 < t" and "0 < c"
    and "spectral_centroid_mean tf = Some (Fin t)" and "stft L audio = Inr S"
    and "spectral_centroid L audio sr = Inr frames" and "np_mean frames = Fin c"
  shows "modify_spectral_envelope L audio sr tf =
           or_else (and_then (scale_rows (map (envelope_gain (Fin t) (Fin c)) (fft_frequencies sr)) S)
                      (istft L)) audio"
  using assms(1,2)
  by (simp add: modify_spectral_envelope_def envelope_body_def assms(3-6) and_then_def Let_def
      fl_gt_def)

text \<open>
  Claim C4. For a target and a current (base) feature that are both defined and positive,
  the ratio each stage applies is the clipped one:
  \<^item> the pitch ratio \<open>target / current\<close> lies in [0.5, 2.0], it is this clipped ratio that is
    converted to semitones (\<open>12 * log2\<close>), and the pitch stage shifts by that many steps;
  \<^item> the spectral-centroid ratio lies in [0.8, 1.2], and the gain the envelope stage
    multiplies into bin \<open>f\<close> is \<open>1 + (ratio - 1) * weight f * 0.3\<close>;
  \<^item> the amplitude ratio \<open>sqrt (target / current)\<close> of the energies lies in [0.3, 3.0], and
    the dynamics stage multiplies every sample by it before it renormalises.
\<close>

theorem clamp_bounds:
  assumes "0 < t" and "0 < c"
  shows "(let r = min (max (t / c) (1 / 2)) 2 in
            pitch_ratio (Fin t) (Fin c) = Fin r \<and> 1 / 2 \<le> r \<and> r \<le> 2 \<and>
            pitch_shift_semitones (Fin t) (Fin c) = Fin (12 * log 2 r) \<and>
            (f0_mean tf = Some (Fin t) \<and> voiced_f0_mean L audio = Inr (Fin c) \<longrightarrow>
               apply_pitch_transformation L audio sr tf =
                 or_else (pitch_shift L audio sr (Fin (12 * log 2 r))) audio)) \<and>
         (let r = min (max (t / c) (8 / 10)) (12 / 10) in
            centroid_ratio (Fin t) (Fin c) = Fin r \<and> 8 / 10 \<le> r \<and> r \<le> 12 / 10 \<and>
            (\<forall>f. envelope_gain (Fin t) (Fin c) f =
                   Fin (1 + (r - 1) * exp (- (1 / 2) * ((f - t) / (t * (3 / 10))) ^ 2) * (3 / 10))) \<and>
            (spectral_centroid_mean tf = Some (Fin t) \<and> stft L audio = Inr S \<and>
             spectral_centroid L audio sr = Inr frames \<and> np_mean frames = Fin c \<longrightarrow>
               modify_spectral_envelope L audio sr tf =
                 or_else (and_then (scale_rows (map (envelope_gain (Fin t) (Fin c))
                                                  (fft_frequencies sr)) S) (istft L)) audio)) \<and>
         (let r = min (max (sqrt (t / c)) (3 / 10)) 3 in
            energy_ratio (Fin t) (Fin c) = Fin r \<and> 3 / 10 \<le> r \<and> r \<le> 3 \<and>
            (energy tf = Some (Fin t) \<and> np_mean (map fl_sq audio) = Fin c \<longrightarrow>
               match_voice_dynamics audio tf = rms_normalise (map (\<lambda>x. fl_mul x (Fin r)) audio)))"
proof -
  note rc = ratios_clipped [OF assms]
  have b1: "1 / 2 \<le> min (max (t / c) (1 / 2)) 2 \<and> min (max (t / c) (1 / 2)) 2 \<le> (2::real)"
    by (rule clip_range) simp
  have b2: "8 / 10 \<le> min (max (t / c) (8 / 10)) (12 / 10) \<and>
            min (max (t / c) (8 / 10)) (12 / 10) \<le> (12 / 10::real)"
    by (rule clip_range) simp
  have b3: "3 / 10 \<le> min (max (sqrt (t / c)) (3 / 10)) 3 \<and>
            min (max (sqrt (t / c)) (3 / 10)) 3 \<le> (3::real)"
    by (rule clip_range) simp
  have p: "f0_mean tf = Some (Fin t) \<and> voiced_f0_mean L audio = Inr (Fin c) \<longrightarrow>
      apply_pitch_transformation L audio sr tf =
        or_else (pitch_shift L audio sr (Fin (12 * log 2 (min (max (t / c) (1 / 2)) 2)))) audio"
    using pitch_stage_applies [OF assms] by blast
  have g: "\<forall>f. envelope_gain (Fin t) (Fin c) f =
      Fin (1 + (min (max (t / c) (8 / 10)) (12 / 10) - 1) *
               exp (- (1 / 2) * ((f - t) / (t * (3 / 10))) ^ 2) * (3 / 10))"
    using envelope_gain_clipped [OF assms] by blast
  have e: "spectral_centroid_mean tf = Some (Fin t) \<and> stft L audio = Inr S \<and>
      spectral_centroid L audio sr = Inr frames \<and> np_mean frames = Fin c \<longrightarrow>
      modify_spectral_envelope L audio sr tf =
        or_else (and_then (scale_rows (map (envelope_gain (Fin t) (Fin c)) (fft_frequencies sr)) S)
                   (istft L)) audio"
    using envelope_stage_applies [OF assms] by blast
  have d: "energy tf = Some (Fin t) \<and> np_mean (map fl_sq audio) = Fin c \<longrightarrow>
      match_voice_dynamics audio tf =
        rms_normalise (map (\<lambda>x. fl_mul x (Fin (min (max (sqrt (t / c)) (3 / 10)) 3))) audio)"
    using dynamics_stage_applies [OF assms] by blast
  show ?thesis
    unfolding Let_def using rc b1 b2 b3 p g e d by blast
qed

text \<open>
  Targets ten times the base (a hundred times for the energy): every ratio sits on its
  upper bound, and the stages of \<open>echo_lib\<close> apply it.
\<close>

theorem clamp_bounds_witness:
  "pitch_ratio (Fin 1200) (Fin 120) = Fin 2 \<and>
   pitch_shift_semitones (Fin 1200) (Fin 120) = Fin 12 \<and>
   apply_pitch_transformation echo_lib [Fin 1] 22050 far_target =
     or_else (pitch_shift echo_lib [Fin 1] 22050 (Fin 12)) [Fin 1] \<and>
   centroid_ratio (Fin 10000) (Fin 1000) = Fin (12 / 10) \<and>
   modify_spectral_envelope echo_lib [Fin 1] 22050 far_target =
     or_else (and_then (scale_rows (map (envelope_gain (Fin 10000) (Fin 1000))
                                      (fft_frequencies 22050)) [[(Fin 1, Fin 0)]])
                (istft echo_lib)) [Fin 1] \<and>
   energy_ratio (Fin 100) (Fin 1) = Fin 3 \<and>
   match_voice_dynamics [Fin 1] far_target = rms_normalise [Fin 3]"
proof -
  have f: "f0_mean far_target = Some (Fin 1200)"
    and c: "spectral_centroid_mean far_target = Some (Fin 10000)"
    and e: "energy far_target = Some (Fin 100)"
    by (simp_all add: far_target_def no_features_def)
  have v: "voiced_f0_mean echo_lib [Fin 1] = Inr (Fin 120)"
    and s: "stft echo_lib [Fin 1] = Inr [[(Fin 1, Fin 0)]]"
    and sc: "spectral_centroid echo_lib [Fin 1] 22050 = Inr [Fin 1000]"
    by (simp_all add: echo_lib_def)
  have m: "np_mean [Fin 1000] = Fin 1000" and m1: "np_mean (map fl_sq [Fin 1]) = Fin 1"
    by (simp_all add: np_mean_def fl_sq_def)
  have sq: "sqrt (100::real) = 10" using real_sqrt_abs [of 10] by simp
  have p1: "(0::real) < 1200" and p2: "(0::real) < 120" and p3: "(0::real) < 10000"
    and p4: "(0::real) < 1000" and p5: "(0::real) < 100" and p6: "(0::real) < 1"
    by simp_all
  note t1 = clamp_bounds [OF p1 p2, of far_target echo_lib "[Fin 1]" 22050]
  note t2 = clamp_bounds [OF p3 p4, of far_target echo_lib "[Fin 1]" 22050
      "[[(Fin 1, Fin 0)]]" "[Fin 1000]"]
  note t3 = clamp_bounds [OF p5 p6, of far_target echo_lib "[Fin 1]"]
  have 1: "pitch_ratio (Fin 1200) (Fin 120) = Fin 2 \<and>
      pitch_shift_semitones (Fin 1200) (Fin 120) = Fin 12 \<and>
      apply_pitch_transformation echo_lib [Fin 1] 22050 far_target =
        or_else (pitch_shift echo_lib [Fin 1] 22050 (Fin 12)) [Fin 1]"
    using t1 f v by (simp add: Let_def)
  have 2: "centroid_ratio (Fin 10000) (Fin 1000) = Fin (12 / 10) \<and>
      modify_spectral_envelope echo_lib [Fin 1] 22050 far_target =
        or_else (and_then (scale_rows (map (envelope_gain (Fin 10000) (Fin 1000))
                                         (fft_frequencies 22050)) [[(Fin 1, Fin 0)]])
                   (istft echo_lib)) [Fin 1]"
    using t2 c s sc m by (simp add: Let_def)
  have 3: "energy_ratio (Fin 100) (Fin 1) = Fin 3 \<and>
      match_voice_dynamics [Fin 1] far_target = rms_normalise [Fin 3]"
    using t3 e m1 sq by (simp add: Let_def)
  show ?thesis using 1 2 3 by blast
qed

section \<open>The quality enhancer\<close>

lemma compress_Fin: "compress (Fin y) = Fin (compress_real y)"
  by (simp add: compress_def compress_real_def fl_gt_def fl_sub_def)

lemma foldl_np_maximum_Fin:
  "foldl np_maximum (Fin a) (map Fin xs) = Fin (foldl max a xs)"
  by (induction xs arbitrary: a) (auto simp: np_maximum_def max_def)

lemma foldl_max_ge: "a \<le> foldl max (a::real) xs"
proof (induction xs arbitrary: a)
  case Nil
  show ?case by simp
next
  case (Cons x xs)
  have "a \<le> max a x" by simp
  also have "\<dots> \<le> foldl max (max a x) xs" by (rule Cons.IH)
  finally show ?case by simp
qed

lemma foldl_max_upper: "x \<in> set xs \<Longrightarrow> x \<le> foldl max (a::real) xs"
proof (induction xs arbitrary: a)
  case Nil
  then show ?case by simp
next
  case (Cons y ys)
  show ?case
  proof (cases "x = y")
    case True
    have "x \<le> max a y" using True by simp
    also have "\<dots> \<le> foldl max (max a y) ys" by (rule foldl_max_ge)
    finally show ?thesis by simp
  next
    case False
    then have "x \<in> set ys" using Cons.prems by simp
    then show ?thesis using Cons.IH by simp
  qed
qed

lemma normalise_peak_Fin:
  "\<exists>zs. or_else (normalise_peak (map Fin cs)) fb = (if cs = [] then fb else map Fin zs) \<and>
        list_all (\<lambda>z. \<bar>z\<bar> \<le> 8 / 10) zs"
proof (cases cs)
  case Nil
  then show ?thesis
    by (intro exI [of _ "[]"]) (simp add: normalise_peak_def and_then_def or_else_def)
next
  case (Cons c rest)
  define m where "m = foldl max \<bar>c\<bar> (map abs rest)"
  have ne: "cs \<noteq> []" using Cons by simp
  have mx: "np_max (map (\<lambda>x. Fin \<bar>x\<bar>) cs) = Inr (Fin m)"
    using foldl_np_maximum_Fin [of "\<bar>c\<bar>" "map abs rest"]
    by (simp add: Cons m_def comp_def)
  have le: "\<bar>z\<bar> \<le> m" if "z \<in> set cs" for z
  proof (cases "z = c")
    case True
    then show ?thesis unfolding m_def using foldl_max_ge by simp
  next
    case False
    then have "\<bar>z\<bar> \<in> set (map abs rest)" using that Cons by simp
    then show ?thesis unfolding m_def by (rule foldl_max_upper)
  qed
  show ?thesis
  proof (cases "0 < m")
    case True
    have eq: "or_else (normalise_peak (map Fin cs)) fb = map Fin (map (\<lambda>z. z / m * (8 / 10)) cs)"
      using True by (simp add: normalise_peak_def mx and_then_def or_else_def fl_gt_def comp_def)
    have bd: "list_all (\<lambda>z. \<bar>z\<bar> \<le> 8 / 10) (map (\<lambda>z. z / m * (8 / 10)) cs)"
    proof -
      have "\<bar>z / m * (8 / 10)\<bar> \<le> 8 / 10" if "z \<in> set cs" for z
      proof -
        have "\<bar>z\<bar> / m \<le> 1" using le [OF that] True by simp
        then have "\<bar>z\<bar> / m * (8 / 10) \<le> 1 * (8 / 10)" by (intro mult_right_mono) simp_all
        moreover have "\<bar>z / m * (8 / 10)\<bar> = \<bar>z\<bar> / m * (8 / 10)"
          using True by (simp add: abs_mult)
        ultimately show ?thesis by simp
      qed
      then show ?thesis by (simp add: list_all_iff)
    qed
    have "or_else (normalise_peak (map Fin cs)) fb =
        (if cs = [] then fb else map Fin (map (\<lambda>z. z / m * (8 / 10)) cs))"
      using eq ne by (simp only: if_False)
    then show ?thesis using bd by blast
  next
    case False
    have eq: "or_else (normalise_peak (map Fin cs)) fb = map Fin cs"
      using False by (simp add: normalise_peak_def mx and_then_def or_else_def fl_gt_def comp_def)
    have bd: "list_all (\<lambda>z. \<bar>z\<bar> \<le> 8 / 10) cs"
    proof -
      have "\<bar>z\<bar> \<le> 8 / 10" if "z \<in> set cs" for z
        using le [OF that] False by simp
      then show ?thesis by (simp add: list_all_iff)
    qed
    have "or_else (normalise_peak (map Fin cs)) fb = (if cs = [] then fb else map Fin cs)"
      using eq ne by (simp only: if_False)
    then show ?thesis using bd by blast
  qed
qed

text \<open>
  Claim C5, as the code has it. When the filter step (lines 273 to 276) returns a signal
  of finite samples, every sample of the enhancer's output is finite and at most 0.8 in
  absolute value. When the filter step raises, the enhancer returns its input unchanged,
  whatever its peak; the filter step always raises on a signal of at most 15 samples and
  on a sample rate of zero.
\<close>

theorem enhancer_peak_bound:
  "(enhance_filter L audio sr = Inr (map Fin ys) \<longrightarrow>
      (\<exists>zs. enhance_voice_quality L audio sr = map Fin zs \<and>
            list_all (\<lambda>z. \<bar>z\<bar> \<le> 8 / 10) zs)) \<and>
   (enhance_filter L audio sr = Inl e \<longrightarrow> enhance_voice_quality L audio sr = audio) \<and>
   (length audio \<le> 15 \<or> sr = 0 \<longrightarrow> enhance_voice_quality L audio sr = audio)"
proof (intro conjI impI)
  assume f: "enhance_filter L audio sr = Inr (map Fin ys)"
  obtain zs where z: "or_else (normalise_peak (map Fin (map compress_real ys))) (map Fin ys) =
      (if map compress_real ys = [] then map Fin ys else map Fin zs)"
    and b: "list_all (\<lambda>z. \<bar>z\<bar> \<le> 8 / 10) zs"
    using normalise_peak_Fin by blast
  have c: "map compress (map Fin ys) = map Fin (map compress_real ys)"
    by (simp add: compress_Fin comp_def)
  have u: "enhance_voice_quality L audio sr =
      or_else (normalise_peak (map compress (map Fin ys))) (map Fin ys)"
    by (simp only: enhance_voice_quality_def f sum.case)
  have v: "enhance_voice_quality L audio sr =
      (if map compress_real ys = [] then map Fin ys else map Fin zs)"
    by (simp only: u c z)
  show "\<exists>zs. enhance_voice_quality L audio sr = map Fin zs \<and> list_all (\<lambda>z. \<bar>z\<bar> \<le> 8 / 10) zs"
  proof (cases "ys = []")
    case True
    then have "enhance_voice_quality L audio sr = map Fin []"
      using v by simp
    then show ?thesis by (intro exI [of _ "[]"]) simp
  next
    case False
    then have "enhance_voice_quality L audio sr = map Fin zs"
      using v by simp
    then show ?thesis using b by blast
  qed
next
  assume "enhance_filter L audio sr = Inl e"
  then show "enhance_voice_quality L audio sr = audio"
    by (simp add: enhance_voice_quality_def)
next
  assume "length audio \<le> 15 \<or> sr = 0"
  then have "\<exists>e. enhance_filter L audio sr = Inl e"
    by (auto simp: enhance_filter_def normalised_cutoff_def filtfilt_lowpass_def and_then_def Let_def)
  then show "enhance_voice_quality L audio sr = audio"
    by (auto simp: enhance_voice_quality_def)
qed

text \<open>
  The claim as the specification states it, a peak of at most 0.8 for every input, fails
  on the one-sample signal \<open>[1.0]\<close>: the filter raises, and the output is the input.
\<close>

theorem enhancer_peak_counterexample:
  "enhance_voice_quality echo_lib [Fin 1] 22050 = [Fin 1] \<and> \<not> fl_le (fl_abs (Fin 1)) (Fin (8 / 10))"
  by (simp add: enhance_voice_quality_def enhance_filter_def normalised_cutoff_def
      filtfilt_lowpass_def and_then_def Let_def)

lemma cutoff_22050: "normalised_cutoff 22050 = Inr (8000 / 11025)"
  by (simp add: normalised_cutoff_def Let_def)

text \<open>
  Sixteen samples of 1.0 through the pass-through filter of \<open>echo_lib\<close>, and one sample
  through a filter that raises.
\<close>

theorem enhancer_peak_bound_witness:
  "enhance_filter echo_lib (map Fin (replicate 16 1)) 22050 = Inr (map Fin (replicate 16 1)) \<and>
   (\<exists>zs. enhance_voice_quality echo_lib (map Fin (replicate 16 1)) 22050 = map Fin zs \<and>
         list_all (\<lambda>z. \<bar>z\<bar> \<le> 8 / 10) zs) \<and>
   enhance_filter failing_lib [Fin 1] 22050 = Inl ValueError \<and>
   enhance_voice_quality failing_lib [Fin 1] 22050 = [Fin 1]"
proof -
  have f: "enhance_filter echo_lib (map Fin (replicate 16 1)) 22050 = Inr (map Fin (replicate 16 1))"
    by (simp add: enhance_filter_def cutoff_22050 filtfilt_lowpass_def and_then_def echo_lib_def)
  have g: "enhance_filter failing_lib [Fin 1] 22050 = Inl ValueError"
    by (simp add: enhance_filter_def cutoff_22050 filtfilt_lowpass_def and_then_def)
  show ?thesis
    using f g enhancer_peak_bound [of echo_lib "map Fin (replicate 16 1)" 22050 "replicate 16 1" ValueError]
      enhancer_peak_bound [of failing_lib "[Fin 1]" 22050 "[]" ValueError]
    by simp
qed

section \<open>Stages on an undefined target\<close>

lemma emphasise_skip: "list_all (\<lambda>f. \<not> 0 < f) fs \<Longrightarrow> emphasise sr fs S = Inr S"
  by (induction fs) simp_all

text \<open>
  Claim C1, as the code has it. On an undefined or non-positive target feature a stage
  leaves out its adjustment, which is not always the identity:
  \<^item> pitch: a target \<open>f0_mean\<close> that is NaN (or a dictionary without the key) returns the
    input itself;
  \<^item> spectral envelope, formant shifting, texture: a target centroid that does not compare
    positive (for the formants: none of the first three is positive, or there is none)
    applies no gain, and the stage returns either its input (a library call raised) or the
    inverse transform of the untouched forward transform of its input;
  \<^item> dynamics: a target energy that does not compare positive leaves out the energy
    scaling only; the renormalisation of the RMS level to 0.1 is still applied.
\<close>

theorem skip_on_undefined_target:
  "(f0_mean tf = None \<or> f0_mean tf = Some NaN \<longrightarrow>
      apply_pitch_transformation L audio sr tf = audio) \<and>
   ((case spectral_centroid_mean tf of None \<Rightarrow> True | Some t \<Rightarrow> \<not> fl_gt t (Fin 0)) \<longrightarrow>
      modify_spectral_envelope L audio sr tf = audio \<or>
      (\<exists>S. stft L audio = Inr S \<and> istft L S = Inr (modify_spectral_envelope L audio sr tf))) \<and>
   ((case formants tf of None \<Rightarrow> True | Some fs \<Rightarrow> list_all (\<lambda>f. \<not> 0 < f) (take 3 fs)) \<longrightarrow>
      apply_formant_shifting L audio sr tf = audio \<or>
      (\<exists>S. stft L audio = Inr S \<and> istft L S = Inr (apply_formant_shifting L audio sr tf))) \<and>
   ((case spectral_centroid_mean tf of None \<Rightarrow> False | Some t \<Rightarrow> \<not> fl_gt t (Fin 0)) \<longrightarrow>
      adjust_voice_texture L audio sr tf = audio \<or>
      (\<exists>S. stft L audio = Inr S \<and> istft L S = Inr (adjust_voice_texture L audio sr tf))) \<and>
   ((case energy tf of None \<Rightarrow> False | Some e \<Rightarrow> \<not> fl_gt e (Fin 0)) \<longrightarrow>
      match_voice_dynamics audio tf = rms_normalise audio)"
proof (intro conjI impI)
  assume "f0_mean tf = None \<or> f0_mean tf = Some NaN"
  then show "apply_pitch_transformation L audio sr tf = audio"
    by (auto simp: apply_pitch_transformation_def pitch_body_def or_else_def)
next
  assume h: "case spectral_centroid_mean tf of None \<Rightarrow> True | Some t \<Rightarrow> \<not> fl_gt t (Fin 0)"
  show "modify_spectral_envelope L audio sr tf = audio \<or>
      (\<exists>S. stft L audio = Inr S \<and> istft L S = Inr (modify_spectral_envelope L audio sr tf))"
    using h
    by (auto simp: modify_spectral_envelope_def envelope_body_def or_else_def and_then_def Let_def
        split: sum.splits option.splits)
next
  assume h: "case formants tf of None \<Rightarrow> True | Some fs \<Rightarrow> list_all (\<lambda>f. \<not> 0 < f) (take 3 fs)"
  have e: "(case formants tf of None \<Rightarrow> Inr S
          | Some fs \<Rightarrow> if 0 < length fs then emphasise sr (take 3 fs) S else Inr S) = Inr S" for S
    using h by (auto simp: emphasise_skip split: option.splits)
  show "apply_formant_shifting L audio sr tf = audio \<or>
      (\<exists>S. stft L audio = Inr S \<and> istft L S = Inr (apply_formant_shifting L audio sr tf))"
    unfolding apply_formant_shifting_def formant_body_def e
    by (auto simp: or_else_def and_then_def split: sum.splits)
next
  assume h: "case spectral_centroid_mean tf of None \<Rightarrow> False | Some t \<Rightarrow> \<not> fl_gt t (Fin 0)"
  show "adjust_voice_texture L audio sr tf = audio \<or>
      (\<exists>S. stft L audio = Inr S \<and> istft L S = Inr (adjust_voice_texture L audio sr tf))"
    using h
    by (auto simp: adjust_voice_texture_def texture_body_def or_else_def and_then_def Let_def
        split: sum.splits option.splits)
next
  assume h: "case energy tf of None \<Rightarrow> False | Some e \<Rightarrow> \<not> fl_gt e (Fin 0)"
  then show "match_voice_dynamics audio tf = rms_normalise audio"
    by (auto simp: match_voice_dynamics_def Let_def split: option.splits)
qed

text \<open>
  The claim as the specification states it fails for dynamics matching: with a target
  energy of zero the one-sample signal \<open>[1.0]\<close> comes back as \<open>[0.1]\<close>.
\<close>

theorem dynamics_not_identity_counterexample:
  "energy (no_features\<lparr>energy := Some (Fin 0)\<rparr>) = Some (Fin 0) \<and>
   \<not> fl_gt (Fin 0) (Fin 0) \<and>
   match_voice_dynamics [Fin 1] (no_features\<lparr>energy := Some (Fin 0)\<rparr>) = [Fin (1 / 10)] \<and>
   match_voice_dynamics [Fin 1] (no_features\<lparr>energy := Some (Fin 0)\<rparr>) \<noteq> [Fin 1]"
  by (simp add: match_voice_dynamics_def rms_normalise_def no_features_def np_mean_def
      fl_sq_def fl_gt_def Let_def)

text \<open>The five stages on the two-sample signal \<open>[1.0, 2.0]\<close> and a silent target.\<close>

theorem skip_on_undefined_target_witness:
  "apply_pitch_transformation echo_lib [Fin 1, Fin 2] 22050 silent_target = [Fin 1, Fin 2] \<and>
   modify_spectral_envelope echo_lib [Fin 1, Fin 2] 22050 silent_target = [Fin 1, Fin 2] \<and>
   apply_formant_shifting echo_lib [Fin 1, Fin 2] 22050 silent_target = [Fin 1, Fin 2] \<and>
   adjust_voice_texture echo_lib [Fin 1, Fin 2] 22050 silent_target = [Fin 1, Fin 2] \<and>
   match_voice_dynamics [Fin 1, Fin 2] silent_target = rms_normalise [Fin 1, Fin 2]"
proof -
  have f: "f0_mean silent_target = Some NaN"
    and c: "spectral_centroid_mean silent_target = Some (Fin 0)"
    and m: "formants silent_target = Some []"
    and e: "energy silent_target = Some (Fin 0)"
    by (simp_all add: silent_target_def no_features_def)
  have s: "stft echo_lib [Fin 1, Fin 2] = Inr [[(Fin 1, Fin 0), (Fin 2, Fin 0)]]"
    and i: "istft echo_lib [[(Fin 1, Fin 0), (Fin 2, Fin 0)]] = Inr [Fin 1, Fin 2]"
    by (simp_all add: echo_lib_def)
  show ?thesis
    using skip_on_undefined_target [of silent_target echo_lib "[Fin 1, Fin 2]" 22050]
    by (auto simp: f c m e s i fl_gt_def)
qed

section \<open>Exceptions inside a stage\<close>

lemma np_max_raises: "np_max xs = Inl e \<Longrightarrow> xs = []"
  by (cases xs) simp_all

lemma normalise_peak_raises: "normalise_peak xs = Inl e \<Longrightarrow> xs = []"
  by (auto simp: normalise_peak_def and_then_def split: sum.splits dest: np_max_raises)

lemma enhance_filter_length:
  assumes "enhance_filter L audio sr = Inr filtered"
    and "\<forall>wn y. lowpass L wn audio = Inr y \<longrightarrow> length y = length audio"
  shows "15 < length filtered"
  using assms
  by (auto simp: enhance_filter_def filtfilt_lowpass_def and_then_def
      split: sum.splits if_splits)

text \<open>
  Claim C3. Whenever the \<^verbatim>\<open>try\<close> block of a stage raises, the stage returns the waveform it
  was given. The stages are total functions into waveforms: no exception leaves them.
  Dynamics matching has no operation that raises. In the enhancer the name \<^verbatim>\<open>audio\<close> is
  rebound to the filtered signal, and the only exception after that point is \<^verbatim>\<open>np.max\<close>
  on an empty array; \<^verbatim>\<open>filtfilt\<close> returns as many samples as it is given (more than 15),
  which is the hypothesis on the library in the last part.
\<close>

theorem stage_exception_fallback:
  "(pitch_body L audio sr tf = Inl e \<longrightarrow> apply_pitch_transformation L audio sr tf = audio) \<and>
   (envelope_body L audio sr tf = Inl e \<longrightarrow> modify_spectral_envelope L audio sr tf = audio) \<and>
   (formant_body L audio sr tf = Inl e \<longrightarrow> apply_formant_shifting L audio sr tf = audio) \<and>
   (texture_body L audio sr tf = Inl e \<longrightarrow> adjust_voice_texture L audio sr tf = audio) \<and>
   (enhance_body L audio sr = Inl e \<and>
    (\<forall>wn y. lowpass L wn audio = Inr y \<longrightarrow> length y = length audio) \<longrightarrow>
      enhance_voice_quality L audio sr = audio)"
proof (intro conjI impI)
  assume "enhance_body L audio sr = Inl e \<and>
    (\<forall>wn y. lowpass L wn audio = Inr y \<longrightarrow> length y = length audio)"
  then have b: "enhance_body L audio sr = Inl e"
    and len: "\<forall>wn y. lowpass L wn audio = Inr y \<longrightarrow> length y = length audio"
    by simp_all
  show "enhance_voice_quality L audio sr = audio"
  proof (cases "enhance_filter L audio sr")
    case (Inl e')
    then show ?thesis by (simp add: enhance_voice_quality_def)
  next
    case (Inr filtered)
    then have "normalise_peak (map compress filtered) = Inl e"
      using b by (simp add: enhance_body_def and_then_def)
    then have "filtered = []" using normalise_peak_raises by fastforce
    moreover have "15 < length filtered" using Inr len by (rule enhance_filter_length)
    ultimately show ?thesis by simp
  qed
qed (simp_all add: apply_pitch_transformation_def modify_spectral_envelope_def
    apply_formant_shifting_def adjust_voice_texture_def or_else_def)

text \<open>
  A dictionary without keys makes the pitch stage raise \<^verbatim>\<open>KeyError\<close>; a library that
  raises makes the spectral stages raise; a two-sample signal makes the filter raise.
\<close>

theorem stage_exception_fallback_witness:
  "pitch_body failing_lib [Fin 1, Fin 2] 22050 no_features = Inl KeyError \<and>
   apply_pitch_transformation failing_lib [Fin 1, Fin 2] 22050 no_features = [Fin 1, Fin 2] \<and>
   envelope_body failing_lib [Fin 1, Fin 2] 22050 no_features = Inl LibraryError \<and>
   modify_spectral_envelope failing_lib [Fin 1, Fin 2] 22050 no_features = [Fin 1, Fin 2] \<and>
   formant_body failing_lib [Fin 1, Fin 2] 22050 no_features = Inl LibraryError \<and>
   apply_formant_shifting failing_lib [Fin 1, Fin 2] 22050 no_features = [Fin 1, Fin 2] \<and>
   texture_body failing_lib [Fin 1, Fin 2] 22050 no_features = Inl LibraryError \<and>
   adjust_voice_texture failing_lib [Fin 1, Fin 2] 22050 no_features = [Fin 1, Fin 2] \<and>
   enhance_body echo_lib [Fin 1, Fin 2] 22050 = Inl ValueError \<and>
   enhance_voice_quality echo_lib [Fin 1, Fin 2] 22050 = [Fin 1, Fin 2]"
proof -
  have p: "pitch_body failing_lib [Fin 1, Fin 2] 22050 no_features = Inl KeyError"
    by (simp add: pitch_body_def no_features_def)
  have v: "envelope_body failing_lib [Fin 1, Fin 2] 22050 no_features = Inl LibraryError"
    by (simp add: envelope_body_def failing_lib_def and_then_def)
  have f: "formant_body failing_lib [Fin 1, Fin 2] 22050 no_features = Inl LibraryError"
    by (simp add: formant_body_def failing_lib_def and_then_def)
  have t: "texture_body failing_lib [Fin 1, Fin 2] 22050 no_features = Inl LibraryError"
    by (simp add: texture_body_def failing_lib_def and_then_def)
  have q: "enhance_body echo_lib [Fin 1, Fin 2] 22050 = Inl ValueError"
    by (simp add: enhance_body_def enhance_filter_def filtfilt_lowpass_def normalised_cutoff_def
        and_then_def Let_def)
  have l: "\<forall>wn y. lowpass echo_lib wn [Fin 1, Fin 2] = Inr y \<longrightarrow> length y = length [Fin 1, Fin 2]"
    by (auto simp: echo_lib_def)
  show ?thesis
    using p v f t q l
      stage_exception_fallback [of failing_lib "[Fin 1, Fin 2]" 22050 no_features KeyError]
      stage_exception_fallback [of failing_lib "[Fin 1, Fin 2]" 22050 no_features LibraryError]
      stage_exception_fallback [of echo_lib "[Fin 1, Fin 2]" 22050 no_features ValueError]
    by simp
qed

section \<open>Formant estimation\<close>

lemma foldl_add_zero:
  "\<forall>p \<in> set ps. snd p = Fin 0 \<Longrightarrow>
   foldl fl_add (Fin 0) (map (\<lambda>(n, x). fl_mul x (Fin (g n))) ps) = Fin 0"
  by (induction ps) (auto simp: case_prod_beta)

lemma dft_sum_silent: "dft_sum trig (replicate m (Fin 0)) k = Fin 0"
  unfolding dft_sum_def
  by (rule foldl_add_zero) (auto simp: in_set_enumerate_eq)

lemma power_spectrum_silent: "power_spectrum (replicate m (Fin 0)) = replicate m (Fin 0)"
  by (simp add: power_spectrum_def dft_sum_silent fl_sq_def map_replicate_const)

lemma local_maxima_constant: "local_maxima (replicate k v) i = []"
proof (induction "replicate k v" i rule: local_maxima.induct)
  case (1 i)
  show ?case
  proof (cases "i < length (replicate k v) - 1")
    case True
    then have "\<not> fl_less (replicate k v ! (i - 1)) (replicate k v ! i)"
      by (cases v) simp_all
    then show ?thesis
      using True "1.hyps"(3) by (subst local_maxima.simps) simp
  next
    case False
    then show ?thesis by (subst local_maxima.simps) simp
  qed
qed

lemma foldl_np_maximum_zero: "foldl np_maximum (Fin 0) (replicate j (Fin 0)) = Fin 0"
  by (induction j) (simp_all add: np_maximum_def)

lemma np_max_silent: "0 < j \<Longrightarrow> np_max (replicate j (Fin 0)) = Inr (Fin 0)"
  by (cases j) (simp_all add: foldl_np_maximum_zero)

lemma spectral_peaks_silent: "0 < j \<Longrightarrow> spectral_peaks (replicate j (Fin 0)) = Inr []"
  by (simp add: spectral_peaks_def np_max_silent and_then_def find_peaks_def local_maxima_constant)

lemma fftfreq_ok: "0 < sr \<Longrightarrow> 0 < n \<Longrightarrow> \<exists>freqs. fftfreq n sr = Inr freqs \<and> length freqs = n"
  by (simp add: fftfreq_def)

lemma estimate_formants_silent:
  assumes "0 < sr" and "2 \<le> m"
  shows "estimate_formants (replicate m (Fin 0)) sr n = []"
proof -
  obtain freqs where f: "fftfreq m sr = Inr freqs" and l: "length freqs = m"
    using fftfreq_ok [of sr m] assms by auto
  have d: "0 < m div 2" using assms by simp
  have t: "take (m div 2) (replicate m (Fin 0)) = replicate (m div 2) (Fin 0)"
    by (simp add: min_def)
  have "formants_body (replicate m (Fin 0)) sr n = Inr []"
    using spectral_peaks_silent [OF d]
    by (simp add: formants_body_def f l and_then_def power_spectrum_silent t argsort_def Let_def)
  then show ?thesis by (simp add: estimate_formants_def or_else_def)
qed

lemma np_max_ok: "xs \<noteq> [] \<Longrightarrow> \<exists>mx. np_max xs = Inr mx"
  by (cases xs) simp_all

lemma formants_body_raises:
  assumes "sr = 0 \<or> length audio \<le> 1"
  shows "estimate_formants audio sr n = default_formants"
proof (cases "sr = 0 \<or> length audio = 0")
  case True
  then show ?thesis
    by (auto simp: estimate_formants_def formants_body_def fftfreq_def and_then_def or_else_def)
next
  case False
  then have sr: "0 < sr" by simp
  have one: "length audio = Suc 0" using assms False by (cases audio) auto
  obtain freqs where f: "fftfreq (Suc 0) sr = Inr freqs" and l: "length freqs = Suc 0"
    using fftfreq_ok [OF sr, of "Suc 0"] by auto
  have p: "length (power_spectrum audio) = Suc 0" by (simp add: power_spectrum_def one)
  show ?thesis
    by (simp add: estimate_formants_def formants_body_def f l p one and_then_def or_else_def
        spectral_peaks_def Let_def)
qed

lemma skip_plateau_le: "j \<le> length x - 1 \<Longrightarrow> skip_plateau x v j \<le> length x - 1"
proof (induction x v j rule: skip_plateau.induct)
  case (1 x v i_ahead)
  show ?case
  proof (cases "i_ahead < length x - 1 \<and> fl_eq (x ! i_ahead) v")
    case True
    then have "skip_plateau x v (Suc i_ahead) \<le> length x - 1" using "1.IH" by simp
    then show ?thesis using True by (subst skip_plateau.simps) simp
  next
    case False
    then show ?thesis using "1.prems" by (subst skip_plateau.simps) auto
  qed
qed

lemma local_maxima_bound: "p \<in> set (local_maxima x i) \<Longrightarrow> p < length x - 1"
proof (induction x i arbitrary: p rule: local_maxima.induct)
  case (1 x i)
  show ?case
  proof (cases "i < length x - 1")
    case False
    then have "local_maxima x i = []" by (subst local_maxima.simps) simp
    then show ?thesis using "1.prems" by simp
  next
    case in_range: True
    let ?s = "skip_plateau x (x ! i) (i + 1)"
    have lo: "i + 1 \<le> ?s" by (rule skip_plateau_ge)
    have hi: "?s \<le> length x - 1" using in_range by (intro skip_plateau_le) simp
    show ?thesis
    proof (cases "fl_less (x ! (i - 1)) (x ! i)")
      case False
      then have "local_maxima x i = local_maxima x (i + 1)"
        using in_range by (subst local_maxima.simps) simp
      then show ?thesis using "1.IH"(3) "1.prems" in_range False by simp
    next
      case rising: True
      show ?thesis
      proof (cases "fl_less (x ! ?s) (x ! i)")
        case False
        then have "local_maxima x i = local_maxima x (i + 1)"
          using in_range rising by (subst local_maxima.simps) simp
        then show ?thesis using "1.IH"(2) "1.prems" in_range rising False by simp
      next
        case True
        then have "local_maxima x i = ((i + (?s - 1)) div 2) # local_maxima x (?s + 1)"
          using in_range rising by (subst local_maxima.simps) simp
        then have "p = (i + (?s - 1)) div 2 \<or> p \<in> set (local_maxima x (?s + 1))"
          using "1.prems" by simp
        then show ?thesis
        proof
          assume "p = (i + (?s - 1)) div 2"
          then show ?thesis using lo hi by simp
        next
          assume "p \<in> set (local_maxima x (?s + 1))"
          then show ?thesis using "1.IH"(1) in_range rising True by simp
        qed
      qed
    qed
  qed
qed

lemma find_peaks_bound: "p \<in> set (find_peaks x h) \<Longrightarrow> p < length x - 1"
  by (auto simp: find_peaks_def dest: local_maxima_bound)

lemma top_of_descending:
  assumes "sorted (rev (map f ys))" and "a \<in> set (take n ys)" and "b \<in> set (drop n ys)"
  shows "f b \<le> f a"
proof -
  have "rev (map f ys) = rev (map f (drop n ys)) @ rev (map f (take n ys))"
    by (metis append_take_drop_id map_append rev_append)
  then have "sorted (rev (map f (drop n ys)) @ rev (map f (take n ys)))" using assms(1) by simp
  then show ?thesis using assms(2,3) by (auto simp: sorted_append)
qed

lemma positive_freq_nth:
  assumes "fftfreq N sr = Inr freqs" and "p < N div 2"
  shows "take (length freqs div 2) freqs ! p = real p * real sr / real N"
proof -
  have f: "freqs = map (\<lambda>i. if i < (N - 1) div 2 + 1 then real i * real sr / real N
                          else - real (N - i) * real sr / real N) [0..<N]"
    using assms(1) by (auto simp: fftfreq_def split: if_splits)
  have l: "length freqs = N" using f by simp
  have "p < N" and "p < (N - 1) div 2 + 1" using assms(2) by arith+
  then show ?thesis using assms(2) by (simp add: l) (simp add: f)
qed

lemma strongest_peaks:
  assumes "0 < sr" and "2 \<le> length audio"
  shows "\<exists>mx peaks idx.
           np_max (take (length audio div 2) (power_spectrum audio)) = Inr mx \<and>
           peaks = find_peaks (take (length audio div 2) (power_spectrum audio))
                     (fl_mul mx (Fin (1 / 10))) \<and>
           formants_body audio sr n = Inr (estimate_formants audio sr n) \<and>
           distinct idx \<and> set idx \<subseteq> {..<length peaks} \<and> length idx = min n (length peaks) \<and>
           (\<forall>i j. i < length peaks \<and> i \<notin> set idx \<and> j \<in> set idx \<longrightarrow>
              sort_rank (take (length audio div 2) (power_spectrum audio) ! (peaks ! i))
                \<le> sort_rank (take (length audio div 2) (power_spectrum audio) ! (peaks ! j))) \<and>
           estimate_formants audio sr n =
             sort (map (\<lambda>i. real (peaks ! i) * real sr / real (length audio)) idx)"
proof -
  let ?N = "length audio"
  let ?P = "take (?N div 2) (power_spectrum audio)"
  have pos: "0 < ?N" using assms(2) by arith
  obtain freqs where f: "fftfreq ?N sr = Inr freqs" and l: "length freqs = ?N"
    using fftfreq_ok [OF assms(1) pos] by blast
  have pl: "length (power_spectrum audio) = ?N" by (simp add: power_spectrum_def)
  have lp: "length ?P = ?N div 2" by (simp add: pl)
  have "?P \<noteq> []" using assms pl by auto
  then obtain mx where mx: "np_max ?P = Inr mx" using np_max_ok by blast
  define peaks where "peaks = find_peaks ?P (fl_mul mx (Fin (1 / 10)))"
  define ks where "ks = map (\<lambda>p. ?P ! p) peaks"
  define order where "order = rev (argsort ks)"
  define idx where "idx = take n order"
  have sp: "spectral_peaks ?P = Inr peaks"
    by (simp add: spectral_peaks_def mx and_then_def peaks_def)
  have body: "formants_body audio sr n =
      Inr (sort (map (\<lambda>i. map (\<lambda>p. take (?N div 2) freqs ! p) peaks ! i) idx))"
    by (simp add: formants_body_def f l pl sp and_then_def Let_def idx_def order_def ks_def)
  have set_order: "set order = {..<length peaks}"
    by (auto simp: order_def argsort_def ks_def)
  have dist_order: "distinct order" by (simp add: order_def argsort_def)
  have len_order: "length order = length peaks" by (simp add: order_def argsort_def ks_def)
  have sub: "set idx \<subseteq> {..<length peaks}"
    using set_take_subset [of n order] set_order by (simp add: idx_def)
  have dist: "distinct idx" using dist_order by (simp add: idx_def)
  have len: "length idx = min n (length peaks)" by (simp add: idx_def len_order min.commute)
  have desc: "sorted (rev (map (\<lambda>i. sort_rank (ks ! i)) order))"
    by (simp add: order_def argsort_def rev_map [symmetric])
  have strong: "sort_rank (?P ! (peaks ! i)) \<le> sort_rank (?P ! (peaks ! j))"
    if h: "i < length peaks \<and> i \<notin> set idx \<and> j \<in> set idx" for i j
  proof -
    have "i \<in> set order" using h set_order by simp
    then have "i \<in> set (take n order) \<union> set (drop n order)"
      by (metis append_take_drop_id set_append)
    then have d: "i \<in> set (drop n order)" using h by (simp add: idx_def)
    have t: "j \<in> set (take n order)" using h by (simp add: idx_def)
    have jl: "j < length peaks" using h sub by auto
    have "sort_rank (ks ! i) \<le> sort_rank (ks ! j)" using top_of_descending [OF desc t d] .
    then show ?thesis using h jl by (simp add: ks_def)
  qed
  have freq: "map (\<lambda>p. take (?N div 2) freqs ! p) peaks ! i
      = real (peaks ! i) * real sr / real ?N" if i: "i \<in> set idx" for i
  proof -
    have il: "i < length peaks" using i sub by auto
    then have "peaks ! i \<in> set (find_peaks ?P (fl_mul mx (Fin (1 / 10))))"
      by (simp add: peaks_def)
    then have "peaks ! i < length ?P - 1" by (rule find_peaks_bound)
    then have b: "peaks ! i < ?N div 2" using lp by simp
    have "take (length freqs div 2) freqs ! (peaks ! i) = real (peaks ! i) * real sr / real ?N"
      using positive_freq_nth [OF f b] .
    then show ?thesis using il by (simp add: l)
  qed
  have m: "map (\<lambda>i. map (\<lambda>p. take (?N div 2) freqs ! p) peaks ! i) idx
      = map (\<lambda>i. real (peaks ! i) * real sr / real ?N) idx"
    using freq by (intro map_cong) simp_all
  have est: "estimate_formants audio sr n = sort (map (\<lambda>i. real (peaks ! i) * real sr / real ?N) idx)"
    by (simp only: estimate_formants_def body or_else_def sum.case m)
  have body2: "formants_body audio sr n = Inr (estimate_formants audio sr n)"
    by (simp only: body est m)
  show ?thesis
    using mx peaks_def body2 dist sub len strong est by blast
qed


lemma formants_body_fails:
  assumes "sr = 0 \<or> length audio \<le> 1"
  shows "\<exists>e. formants_body audio sr n = Inl e"
proof (cases "sr = 0 \<or> length audio = 0")
  case True
  then show ?thesis by (auto simp: formants_body_def fftfreq_def and_then_def)
next
  case False
  then have sr: "0 < sr" by simp
  have one: "length audio = Suc 0" using assms False by (cases audio) auto
  obtain freqs where f: "fftfreq (Suc 0) sr = Inr freqs" and l: "length freqs = Suc 0"
    using fftfreq_ok [OF sr, of "Suc 0"] by auto
  have p: "length (power_spectrum audio) = Suc 0" by (simp add: power_spectrum_def one)
  show ?thesis
    by (simp add: formants_body_def f l p one and_then_def spectral_peaks_def Let_def)
qed

text \<open>
  Claim C2, as the code has it. Formant estimation is total (its \<^verbatim>\<open>try\<close> covers the whole
  body). Its body raises, and the result is the default \<open>[500, 1500, 2500, 3500]\<close>, exactly
  when the sample rate is zero or the waveform has fewer than two samples. Otherwise the
  body returns: with \<open>peaks\<close> the qualifying peaks (the bins \<^verbatim>\<open>find_peaks\<close> reports at a tenth
  of the maximum power or more), the result is the ascending list of the frequencies
  \<open>bin * sr / N\<close> of \<open>min n_formants (length peaks)\<close> distinct peaks, and no peak that is
  left out is stronger (in the order of \<^verbatim>\<open>np.argsort\<close>) than one that is kept. Fewer peaks
  than \<open>n_formants\<close> give a shorter list, not the default; a silent waveform of two or
  more samples has no peak and gives the empty list.
\<close>

theorem formant_fallback:
  "(sr = 0 \<or> length audio \<le> 1 \<longrightarrow>
      (\<exists>e. formants_body audio sr n = Inl e) \<and> estimate_formants audio sr n = default_formants) \<and>
   (0 < sr \<and> 2 \<le> length audio \<longrightarrow>
      (\<exists>mx peaks idx.
         np_max (take (length audio div 2) (power_spectrum audio)) = Inr mx \<and>
         peaks = find_peaks (take (length audio div 2) (power_spectrum audio))
                   (fl_mul mx (Fin (1 / 10))) \<and>
         formants_body audio sr n = Inr (estimate_formants audio sr n) \<and>
         distinct idx \<and> set idx \<subseteq> {..<length peaks} \<and> length idx = min n (length peaks) \<and>
         (\<forall>i j. i < length peaks \<and> i \<notin> set idx \<and> j \<in> set idx \<longrightarrow>
            sort_rank (take (length audio div 2) (power_spectrum audio) ! (peaks ! i))
              \<le> sort_rank (take (length audio div 2) (power_spectrum audio) ! (peaks ! j))) \<and>
         estimate_formants audio sr n =
           sort (map (\<lambda>i. real (peaks ! i) * real sr / real (length audio)) idx))) \<and>
   (0 < sr \<and> 2 \<le> m \<longrightarrow> estimate_formants (replicate m (Fin 0)) sr n = [])"
proof -
  have a: "(\<exists>e. formants_body audio sr n = Inl e) \<and> estimate_formants audio sr n = default_formants"
    if h: "sr = 0 \<or> length audio \<le> 1"
    using formants_body_fails [OF h] formants_body_raises [OF h] by blast
  have b: "\<exists>mx peaks idx.
         np_max (take (length audio div 2) (power_spectrum audio)) = Inr mx \<and>
         peaks = find_peaks (take (length audio div 2) (power_spectrum audio))
                   (fl_mul mx (Fin (1 / 10))) \<and>
         formants_body audio sr n = Inr (estimate_formants audio sr n) \<and>
         distinct idx \<and> set idx \<subseteq> {..<length peaks} \<and> length idx = min n (length peaks) \<and>
         (\<forall>i j. i < length peaks \<and> i \<notin> set idx \<and> j \<in> set idx \<longrightarrow>
            sort_rank (take (length audio div 2) (power_spectrum audio) ! (peaks ! i))
              \<le> sort_rank (take (length audio div 2) (power_spectrum audio) ! (peaks ! j))) \<and>
         estimate_formants audio sr n =
           sort (map (\<lambda>i. real (peaks ! i) * real sr / real (length audio)) idx)"
    if h: "0 < sr \<and> 2 \<le> length audio"
    using strongest_peaks [of sr audio n] h by blast
  have c: "estimate_formants (replicate m (Fin 0)) sr n = []" if h: "0 < sr \<and> 2 \<le> m"
    using estimate_formants_silent [of sr m n] h by blast
  show ?thesis using a b c by blast
qed

text \<open>
  The claim as the specification states it fails on four samples of silence: the result
  is the empty list, not the default.
\<close>

theorem silent_formants_counterexample:
  "estimate_formants [Fin 0, Fin 0, Fin 0, Fin 0] 22050 4 = [] \<and>
   estimate_formants [Fin 0, Fin 0, Fin 0, Fin 0] 22050 4 \<noteq> [500, 1500, 2500, 3500]"
proof -
  have r: "replicate 4 (Fin 0) = [Fin 0, Fin 0, Fin 0, Fin 0]" by (simp add: eval_nat_numeral)
  have "estimate_formants (replicate 4 (Fin 0)) 22050 4 = []"
    by (rule estimate_formants_silent) simp_all
  then show ?thesis unfolding r by simp
qed

lemma quarter_turns:
  "cos (real k * (pi / 2)) = (if even k then (- 1) ^ (k div 2) else 0) \<and>
   sin (real k * (pi / 2)) = (if even k then 0 else (- 1) ^ (k div 2))"
proof (induction k)
  case 0
  show ?case by simp
next
  case (Suc k)
  have e: "real (Suc k) * (pi / 2) = real k * (pi / 2) + pi / 2" by (simp add: algebra_simps)
  have c: "cos (real (Suc k) * (pi / 2)) = - sin (real k * (pi / 2))"
    unfolding e by (simp add: cos_add)
  have s: "sin (real (Suc k) * (pi / 2)) = cos (real k * (pi / 2))"
    unfolding e by (simp add: sin_add)
  show ?case
  proof (cases "even k")
    case True
    then show ?thesis using Suc c s by simp
  next
    case False
    then obtain j where j: "k = Suc (2 * j)" by (auto elim: oddE)
    show ?thesis using Suc c s by (simp add: j)
  qed
qed

lemma three_peak_dft:
  "dft_sum trig three_peak_audio k =
     Fin (3 * trig 0 + trig (real k * (pi / 2)) + 2 * trig (real (2 * k) * (pi / 2)))"
  by (simp add: dft_sum_def three_peak_audio_def enumerate_eq_zip upt_rec [of 0]
      eval_nat_numeral mult.commute [of pi])


lemma quarter_turn_values:
  "cos (3 * pi / 2) = 0" "sin (3 * pi / 2) = - 1"
  "cos (5 * pi / 2) = 0" "sin (5 * pi / 2) = 1"
  "cos (7 * pi / 2) = 0" "sin (7 * pi / 2) = - 1"
  using quarter_turns [of 3] quarter_turns [of 5] quarter_turns [of 7] by simp_all

lemma three_peak_power:
  "take 8 (power_spectrum three_peak_audio) =
     [Fin 36, Fin 2, Fin 16, Fin 2, Fin 36, Fin 2, Fin 16, Fin 2]"
proof -
  have l: "length three_peak_audio = 16" by (simp add: three_peak_audio_def)
  have u: "[0..<8] = [0, 1, 2, 3, 4, 5, 6, 7::nat]" by (simp add: upt_rec [of 0] eval_nat_numeral upt_rec)
  have t: "take 8 (power_spectrum three_peak_audio) =
      map (\<lambda>k. fl_add (fl_sq (dft_sum cos three_peak_audio k))
                       (fl_sq (dft_sum sin three_peak_audio k))) [0..<8]"
    by (simp add: power_spectrum_def l take_map)
  show ?thesis
    unfolding t u by (simp add: three_peak_dft quarter_turns quarter_turn_values fl_sq_def)
qed


lemma three_peak_maxima:
  "local_maxima [Fin 36, Fin 2, Fin 16, Fin 2, Fin 36, Fin 2, Fin 16, Fin 2] 1 = [2, 4, 6]"
  by (simp add: local_maxima.simps skip_plateau.simps)

lemma three_peak_peaks:
  "np_max (take 8 (power_spectrum three_peak_audio)) = Inr (Fin 36) \<and>
   find_peaks (take 8 (power_spectrum three_peak_audio)) (fl_mul (Fin 36) (Fin (1 / 10))) = [2, 4, 6]"
proof -
  have m: "local_maxima [Fin 36, Fin 2, Fin 16, Fin 2, Fin 36, Fin 2, Fin 16, Fin 2] (Suc 0)
      = [2, 4, 6]"
    using three_peak_maxima by simp
  show ?thesis
    unfolding three_peak_power by (simp add: np_maximum_def find_peaks_def m)
qed

lemma three_peak_formants:
  "estimate_formants three_peak_audio 22050 4 = [11025 / 4, 11025 / 2, 33075 / 4] \<and>
   estimate_formants three_peak_audio 22050 1 = [11025 / 2]"
proof -
  have l: "length three_peak_audio = 16" by (simp add: three_peak_audio_def)
  have p: "length (power_spectrum three_peak_audio) = 16" by (simp add: power_spectrum_def l)
  have f: "fftfreq 16 22050 = Inr (map (\<lambda>i. if i < 8 then real i * 22050 / 16
                                   else - real (16 - i) * 22050 / 16) [0..<16])"
    by (simp add: fftfreq_def)
  have sp: "spectral_peaks (take 8 (power_spectrum three_peak_audio)) = Inr [2, 4, 6]"
    using three_peak_peaks by (simp add: spectral_peaks_def and_then_def)
  have pw: "take 8 (power_spectrum three_peak_audio) ! 2 = Fin 16"
    "take 8 (power_spectrum three_peak_audio) ! 4 = Fin 36"
    "take 8 (power_spectrum three_peak_audio) ! 6 = Fin 16"
    unfolding three_peak_power by simp_all
  have ar: "argsort [Fin 16, Fin 36, Fin 16] = [0, 2, 1]"
    by (simp add: argsort_def upt_rec [of 0] eval_nat_numeral)
  have b4: "formants_body three_peak_audio 22050 4 = Inr [11025 / 4, 11025 / 2, 33075 / 4]"
    by (simp add: formants_body_def l p f sp pw ar and_then_def Let_def)
  have b1: "formants_body three_peak_audio 22050 1 = Inr [11025 / 2]"
    by (simp add: formants_body_def l p f sp pw ar and_then_def Let_def)
  show ?thesis using b4 b1 by (simp add: estimate_formants_def or_else_def)
qed

text \<open>
  A one-sample waveform (the default), eight samples of silence (no peak), and a waveform
  with three peaks: all three are returned for \<open>n_formants = 4\<close>, and the strongest one
  alone for \<open>n_formants = 1\<close>.
\<close>

theorem formant_fallback_witness:
  "estimate_formants [Fin 1] 22050 4 = [500, 1500, 2500, 3500] \<and>
   (\<exists>e. formants_body [Fin 1] 22050 4 = Inl e) \<and>
   estimate_formants (replicate 8 (Fin 0)) 22050 4 = [] \<and>
   find_peaks (take 8 (power_spectrum three_peak_audio)) (fl_mul (Fin 36) (Fin (1 / 10))) =
     [2, 4, 6] \<and>
   formants_body three_peak_audio 22050 4 = Inr [11025 / 4, 11025 / 2, 33075 / 4] \<and>
   formants_body three_peak_audio 22050 1 = Inr [11025 / 2]"
proof -
  have a: "(22050::nat) = 0 \<or> length [Fin 1] \<le> 1" by simp
  have b: "0 < (22050::nat) \<and> 2 \<le> (8::nat)" by simp
  have c: "0 < (22050::nat) \<and> 2 \<le> length three_peak_audio"
    by (simp add: three_peak_audio_def)
  note t = formant_fallback [of 22050 "[Fin 1]" 4 8]
  note u4 = formant_fallback [of 22050 three_peak_audio 4 8]
  note u1 = formant_fallback [of 22050 three_peak_audio 1 8]
  have 1: "(\<exists>e. formants_body [Fin 1] 22050 4 = Inl e) \<and>
      estimate_formants [Fin 1] 22050 4 = default_formants"
    using t a by blast
  have 2: "estimate_formants (replicate 8 (Fin 0)) 22050 4 = []"
    using t b by blast
  have 3: "formants_body three_peak_audio 22050 4 =
      Inr (estimate_formants three_peak_audio 22050 4)"
    using u4 c by blast
  have 4: "formants_body three_peak_audio 22050 1 =
      Inr (estimate_formants three_peak_audio 22050 1)"
    using u1 c by blast
  show ?thesis
    using 1 2 3 4 three_peak_formants three_peak_peaks
    by (simp only: default_formants_def simp_thms)
qed

section \<open>The clone operation\<close>

lemma dropWhile_all: "list_all P cs \<Longrightarrow> dropWhile P cs = []"
  by (induction cs) simp_all

lemma py_strip_blank: "py_strip cs = [] \<longleftrightarrow> list_all py_isspace cs"
proof
  assume a: "py_strip cs = []"
  show "list_all py_isspace cs"
  proof (cases "dropWhile py_isspace cs")
    case Nil
    then show ?thesis by (simp add: dropWhile_eq_Nil_conv list_all_iff)
  next
    case (Cons c rest)
    then have "\<not> py_isspace c" using hd_dropWhile [of py_isspace cs] by auto
    moreover have "\<forall>x \<in> set (rev (dropWhile py_isspace cs)). py_isspace x"
      using a by (simp add: py_strip_def dropWhile_eq_Nil_conv)
    ultimately show ?thesis using Cons by simp
  qed
next
  assume "list_all py_isspace cs"
  then have d: "dropWhile py_isspace cs = []" by (rule dropWhile_all)
  show "py_strip cs = []" by (simp only: py_strip_def d rev.simps dropWhile.simps)
qed

text \<open>
  Claim C6. A text that is empty or white space only makes \<^verbatim>\<open>clone_voice\<close> return \<^verbatim>\<open>None\<close>
  at once: the engine's attributes are as before, the file system is as before (no
  temporary file), no feature extraction ran, and the only effect is the error message.
\<close>

theorem blank_text_rejected:
  assumes "list_all py_isspace text"
  shows "clone_voice L text reference_audio_path (e, w) =
           (None, e, say (UiError ''Please enter text to synthesize'') w) \<and>
         disk (say (UiError ''Please enter text to synthesize'') w) = disk w \<and>
         extract_calls (say (UiError ''Please enter text to synthesize'') w) = extract_calls w"
proof -
  have "py_strip text = []" using assms by (simp add: py_strip_blank)
  then show ?thesis by (simp add: clone_voice_def say_def)
qed

text \<open>A space, a tab and a line feed; and the empty text.\<close>

theorem blank_text_rejected_witness:
  "clone_voice echo_lib [32, 9, 10] ''ref.wav'' (fresh_engine, demo_world) =
     (None, fresh_engine, say (UiError ''Please enter text to synthesize'') demo_world) \<and>
   clone_voice echo_lib [] ''ref.wav'' (fresh_engine, demo_world) =
     (None, fresh_engine, say (UiError ''Please enter text to synthesize'') demo_world) \<and>
   disk (say (UiError ''Please enter text to synthesize'') demo_world) = disk demo_world \<and>
   extract_calls (say (UiError ''Please enter text to synthesize'') demo_world) = []"
proof -
  have a: "list_all py_isspace [32, 9, 10]" and b: "list_all py_isspace []"
    by (simp_all add: py_isspace_def)
  have c: "extract_calls demo_world = []" by (simp add: demo_world_def)
  show ?thesis
    using blank_text_rejected [OF a, of echo_lib "''ref.wav''" fresh_engine demo_world]
      blank_text_rejected [OF b, of echo_lib "''ref.wav''" fresh_engine demo_world] c
    by simp
qed

lemma extract_calls_say [simp]: "extract_calls (say m w) = extract_calls w"
  and disk_say [simp]: "disk (say m w) = disk w"
  by (simp_all add: say_def)

lemma extract_voice_features_log:
  "extract_calls (snd (extract_voice_features L p w)) = extract_calls w @ [p]"
  and extract_voice_features_disk: "disk (snd (extract_voice_features L p w)) = disk w"
  and extract_voice_features_fst: "fst (extract_voice_features L p w) = extraction L (disk w) p"
  by (simp_all add: extract_voice_features_def Let_def split: option.splits)

lemma load_reference_voice_log:
  "extract_calls (snd (snd (load_reference_voice L p (e, w)))) = extract_calls w @ [p]"
proof -
  obtain r w1 where x: "extract_voice_features L p w = (r, w1)" by (cases "extract_voice_features L p w")
  have "extract_calls w1 = extract_calls w @ [p]"
    using extract_voice_features_log [of L p w] x by simp
  then show ?thesis
    by (simp add: load_reference_voice_def x split: option.splits prod.splits)
qed

lemma load_reference_voice_fail:
  assumes "extraction L (disk w) p = None"
  shows "load_reference_voice L p (e, w) = (False, e, snd (extract_voice_features L p w))"
proof -
  obtain r w1 where x: "extract_voice_features L p w = (r, w1)" by (cases "extract_voice_features L p w")
  have "r = None" using extract_voice_features_fst [of L p w] x assms by simp
  then show ?thesis by (simp add: load_reference_voice_def x)
qed

lemma load_reference_voice_true:
  assumes "load_reference_voice L p (e, w) = (True, e1, w1)"
  shows "\<exists>fs. reference_features e1 = Some fs \<and> dict_truthy fs \<and>
              last_reference_path e1 = last_reference_path e"
  using assms
  by (auto simp: load_reference_voice_def split: prod.splits option.splits if_splits)

lemma synthesize_base_speech_log:
  "extract_calls (snd (synthesize_base_speech L t e w)) = extract_calls w"
  by (simp add: synthesize_base_speech_def Let_def split: sum.splits option.splits)

lemma apply_voice_transformation_log:
  "extract_calls (snd (apply_voice_transformation L b tf w)) = extract_calls w"
  by (simp add: apply_voice_transformation_def split: sum.splits)

lemma save_and_clean_log:
  "extract_calls (snd (save_and_clean L b a sr w)) = extract_calls w"
  by (simp add: save_and_clean_def Let_def split: sum.splits option.splits)

lemma synthesis_block_log:
  "extract_calls (snd (synthesis_block L t e w)) = extract_calls w"
proof -
  obtain r1 w1 where a: "synthesize_base_speech L t e w = (r1, w1)"
    by (cases "synthesize_base_speech L t e w")
  have l1: "extract_calls w1 = extract_calls w" using synthesize_base_speech_log [of L t e w] a by simp
  show ?thesis
  proof (cases r1)
    case None
    then show ?thesis by (simp add: synthesis_block_def a l1)
  next
    case (Some b)
    obtain r2 w2 where c: "apply_voice_transformation L b (reference_features e) w1 = (r2, w2)"
      by (cases "apply_voice_transformation L b (reference_features e) w1")
    have l2: "extract_calls w2 = extract_calls w"
      using apply_voice_transformation_log [of L b "reference_features e" w1] c l1 by simp
    show ?thesis
    proof (cases r2)
      case (Inl err)
      then show ?thesis by (simp add: synthesis_block_def a Some c l2)
    next
      case (Inr ar)
      obtain ca sr where ar: "ar = (ca, sr)" by (cases ar)
      obtain r3 w3 where d: "save_and_clean L b ca sr w2 = (r3, w3)"
        by (cases "save_and_clean L b ca sr w2")
      have l3: "extract_calls w3 = extract_calls w"
        using save_and_clean_log [of L b ca sr w2] d l2 by simp
      show ?thesis
        by (cases r3) (simp_all add: synthesis_block_def a Some c Inr ar d l3)
    qed
  qed
qed

lemma reference_block_cached:
  "\<not> needs_analysis e p \<Longrightarrow> reference_block L p (e, w) = (Proceed, e, w)"
  by (simp add: reference_block_def)

lemma reference_block_log:
  "needs_analysis e p \<Longrightarrow>
   extract_calls (snd (snd (reference_block L p (e, w)))) = extract_calls w @ [p]"
proof -
  assume n: "needs_analysis e p"
  obtain ok e1 w1 where l: "load_reference_voice L p (e, w) = (ok, e1, w1)"
    by (cases "load_reference_voice L p (e, w)")
  have "extract_calls w1 = extract_calls w @ [p]"
    using load_reference_voice_log [of L p e w] l by simp
  then show ?thesis
    by (cases ok) (simp_all add: reference_block_def n l Let_def)
qed

lemma reference_block_proceed:
  assumes "reference_block L p (e, w) = (Proceed, e1, w1)"
  shows "\<not> needs_analysis e1 p"
proof (cases "needs_analysis e p")
  case False
  then show ?thesis using assms by (simp add: reference_block_def)
next
  case True
  obtain ok e0 w0 where l: "load_reference_voice L p (e, w) = (ok, e0, w0)"
    by (cases "load_reference_voice L p (e, w)")
  show ?thesis
  proof (cases ok)
    case False
    then show ?thesis using assms True l by (simp add: reference_block_def)
  next
    case ok: True
    then have e1: "e1 = e0\<lparr>last_reference_path := Some p\<rparr>"
      using assms True l by (simp add: reference_block_def Let_def)
    have lt: "load_reference_voice L p (e, w) = (True, e0, w0)" using l ok by simp
    obtain fs where "reference_features e0 = Some fs" and "dict_truthy fs"
      using load_reference_voice_true [OF lt] by blast
    then show ?thesis by (simp add: needs_analysis_def e1)
  qed
qed

lemma reference_block_failed_load:
  assumes "needs_analysis e p" and "extraction L (disk w) p = None"
  shows "\<exists>w1. reference_block L p (e, w) = (ReturnNone, e, w1)"
  using assms by (simp add: reference_block_def load_reference_voice_fail)

lemmas clone_eval_defs = clone_voice_def py_strip_def py_isspace_def reference_block_def
  needs_analysis_def load_reference_voice_def extract_voice_features_def extraction_def
  load_audio_def features_of_def dict_truthy_def display_analysis_def synthesis_block_def
  synthesize_base_speech_def apply_voice_transformation_def save_and_clean_def say_def
  and_then_def Let_def fresh_engine_def demo_world_def

text \<open>
  Claim C10. When feature extraction fails, \<^verbatim>\<open>load_reference_voice\<close> returns \<^verbatim>\<open>False\<close> and
  the engine's attributes (the cached features, audio, sample rate and the last reference
  path) are what they were; a \<^verbatim>\<open>clone_voice\<close> call that had to analyse the reference returns
  \<^verbatim>\<open>None\<close> with the attributes unchanged as well.
\<close>

theorem failed_load_keeps_state:
  assumes "extraction L (disk w) p = None"
  shows "(\<exists>w1. load_reference_voice L p (e, w) = (False, e, w1)) \<and>
         (py_strip text \<noteq> [] \<and> needs_analysis e p \<longrightarrow>
            (\<exists>w1. clone_voice L text p (e, w) = (None, e, w1)))"
proof (intro conjI impI)
  show "\<exists>w1. load_reference_voice L p (e, w) = (False, e, w1)"
    using load_reference_voice_fail [OF assms] by blast
next
  assume a: "py_strip text \<noteq> [] \<and> needs_analysis e p"
  then obtain w1 where "reference_block L p (e, w) = (ReturnNone, e, w1)"
    using reference_block_failed_load assms by blast
  then show "\<exists>w1. clone_voice L text p (e, w) = (None, e, w1)"
    using a by (simp add: clone_voice_def)
qed

text \<open>
  An engine that has a reference cached is asked for a path that holds no file.
\<close>

theorem failed_load_keeps_state_witness:
  "extraction echo_lib (disk demo_world) ''missing.wav'' = None \<and>
   (\<exists>w1. load_reference_voice echo_lib ''missing.wav''
           (fresh_engine\<lparr>reference_features := Some silent_target,
                          last_reference_path := Some ''ref.wav''\<rparr>, demo_world) =
         (False, fresh_engine\<lparr>reference_features := Some silent_target,
                               last_reference_path := Some ''ref.wav''\<rparr>, w1)) \<and>
   (\<exists>w1. clone_voice echo_lib [104, 105] ''missing.wav''
           (fresh_engine\<lparr>reference_features := Some silent_target,
                          last_reference_path := Some ''ref.wav''\<rparr>, demo_world) =
         (None, fresh_engine\<lparr>reference_features := Some silent_target,
                              last_reference_path := Some ''ref.wav''\<rparr>, w1))"
proof -
  have x: "extraction echo_lib (disk demo_world) ''missing.wav'' = None"
    by (simp add: extraction_def load_audio_def and_then_def demo_world_def)
  have n: "py_strip [104, 105] \<noteq> [] \<and>
      needs_analysis (fresh_engine\<lparr>reference_features := Some silent_target,
                        last_reference_path := Some ''ref.wav''\<rparr>) ''missing.wav''"
    by (simp add: py_strip_def py_isspace_def needs_analysis_def)
  show ?thesis
    using x n failed_load_keeps_state [OF x,
        of "fresh_engine\<lparr>reference_features := Some silent_target,
                          last_reference_path := Some ''ref.wav''\<rparr>" "[104, 105]"]
    by blast
qed

text \<open>
  Claim C9, as the code has it. The cache test is in \<^verbatim>\<open>clone_voice\<close> and compares with the
  last path only:
  \<^item> when the features are cached and the path is the last one analysed, \<^verbatim>\<open>clone_voice\<close>
    leaves the engine's attributes unchanged and runs no extraction;
  \<^item> otherwise a \<^verbatim>\<open>clone_voice\<close> call on a text that is not blank runs extraction exactly
    once, on the given path;
  \<^item> a \<^verbatim>\<open>clone_voice\<close> call that returns an output leaves the features cached for its path,
    so that the next call with the same path is a cache hit;
  \<^item> \<^verbatim>\<open>load_reference_voice\<close> itself has no cache test and extracts on every call.
\<close>

theorem reference_cache_hit:
  "(\<not> needs_analysis e p \<longrightarrow>
      (\<exists>r w1. clone_voice L text p (e, w) = (r, e, w1) \<and> extract_calls w1 = extract_calls w)) \<and>
   (py_strip text \<noteq> [] \<and> needs_analysis e p \<longrightarrow>
      extract_calls (snd (snd (clone_voice L text p (e, w)))) = extract_calls w @ [p]) \<and>
   (clone_voice L text p (e, w) = (Some out, e1, w1) \<longrightarrow> \<not> needs_analysis e1 p) \<and>
   extract_calls (snd (snd (load_reference_voice L p (e, w)))) = extract_calls w @ [p]"
proof (intro conjI impI)
  assume c: "\<not> needs_analysis e p"
  obtain r w2 where s: "synthesis_block L text e w = (r, w2)" by (cases "synthesis_block L text e w")
  have "extract_calls w2 = extract_calls w" using synthesis_block_log [of L "text" e w] s by simp
  then show "\<exists>r w1. clone_voice L text p (e, w) = (r, e, w1) \<and> extract_calls w1 = extract_calls w"
    by (cases "py_strip text = []") (simp_all add: clone_voice_def reference_block_cached [OF c] s)
next
  assume a: "py_strip text \<noteq> [] \<and> needs_analysis e p"
  obtain st e0 w0 where rb: "reference_block L p (e, w) = (st, e0, w0)"
    by (cases "reference_block L p (e, w)")
  have l: "extract_calls w0 = extract_calls w @ [p]"
    using reference_block_log [of e p L w] a rb by simp
  obtain r w2 where s: "synthesis_block L text e0 w0 = (r, w2)" by (cases "synthesis_block L text e0 w0")
  have l2: "extract_calls w2 = extract_calls w0" using synthesis_block_log [of L "text" e0 w0] s by simp
  show "extract_calls (snd (snd (clone_voice L text p (e, w)))) = extract_calls w @ [p]"
    using a by (cases st) (simp_all add: clone_voice_def rb s l l2)
next
  assume c: "clone_voice L text p (e, w) = (Some out, e1, w1)"
  then have nb: "py_strip text \<noteq> []" by (auto simp: clone_voice_def split: if_splits)
  obtain st e0 w0 where rb: "reference_block L p (e, w) = (st, e0, w0)"
    by (cases "reference_block L p (e, w)")
  have "st = Proceed \<and> e0 = e1"
    using c nb rb by (cases st) (auto simp: clone_voice_def split: prod.splits)
  then show "\<not> needs_analysis e1 p" using rb reference_block_proceed by blast
next
  show "extract_calls (snd (snd (load_reference_voice L p (e, w)))) = extract_calls w @ [p]"
    by (rule load_reference_voice_log)
qed


text \<open>
  The claim as the specification states it fails twice: \<^verbatim>\<open>load_reference_voice\<close> called
  twice on one path extracts twice, and three \<^verbatim>\<open>clone_voice\<close> calls on the paths A, B, A
  extract three times for two distinct paths.
\<close>

theorem repeated_load_counterexample:
  "fst (load_reference_voice echo_lib ''ref.wav'' (fresh_engine, demo_world)) = True \<and>
   reference_features (fst (snd (load_reference_voice echo_lib ''ref.wav''
      (fresh_engine, demo_world)))) \<noteq> None \<and>
   extract_calls (snd (snd (load_reference_voice echo_lib ''ref.wav''
      (snd (load_reference_voice echo_lib ''ref.wav'' (fresh_engine, demo_world)))))) =
     [''ref.wav'', ''ref.wav''] \<and>
   extract_calls (snd (snd
     (clone_voice echo_lib [104, 105] ''ref.wav'' (snd
       (clone_voice echo_lib [104, 105] ''other.wav'' (snd
         (clone_voice echo_lib [104, 105] ''ref.wav''
            (fresh_engine,
             demo_world\<lparr>disk := (disk demo_world)(''other.wav'' \<mapsto> AudioFile [Fin 3])\<rparr>)))))))) =
     [''ref.wav'', ''other.wav'', ''ref.wav'']"
  by (simp add: clone_eval_defs echo_lib_def)

text \<open>An engine with a cached reference, and a fresh engine.\<close>

theorem reference_cache_hit_witness:
  "\<not> needs_analysis (fresh_engine\<lparr>reference_features := Some silent_target,
                        last_reference_path := Some ''ref.wav''\<rparr>) ''ref.wav'' \<and>
   (\<exists>r w1. clone_voice echo_lib [104, 105] ''ref.wav''
             (fresh_engine\<lparr>reference_features := Some silent_target,
                            last_reference_path := Some ''ref.wav''\<rparr>, demo_world) =
           (r, fresh_engine\<lparr>reference_features := Some silent_target,
                              last_reference_path := Some ''ref.wav''\<rparr>, w1) \<and>
           extract_calls w1 = extract_calls demo_world) \<and>
   needs_analysis fresh_engine ''ref.wav'' \<and>
   extract_calls (snd (snd (clone_voice echo_lib [104, 105] ''ref.wav'' (fresh_engine, demo_world)))) =
     extract_calls demo_world @ [''ref.wav''] \<and>
   fst (clone_voice echo_lib [104, 105] ''ref.wav'' (fresh_engine, demo_world)) = Some ''/tmp/b.wav'' \<and>
   \<not> needs_analysis
       (fst (snd (clone_voice echo_lib [104, 105] ''ref.wav'' (fresh_engine, demo_world)))) ''ref.wav''"
proof -
  let ?e = "fresh_engine\<lparr>reference_features := Some silent_target,
                          last_reference_path := Some ''ref.wav''\<rparr>"
  let ?c = "clone_voice echo_lib [104, 105] ''ref.wav'' (fresh_engine, demo_world)"
  have a: "\<not> needs_analysis ?e ''ref.wav''"
    by (simp add: needs_analysis_def dict_truthy_def silent_target_def no_features_def)
  have b: "py_strip [104, 105] \<noteq> [] \<and> needs_analysis fresh_engine ''ref.wav''"
    by (simp add: py_strip_def py_isspace_def needs_analysis_def fresh_engine_def)
  have c: "fst ?c = Some ''/tmp/b.wav''"
    by (simp add: clone_eval_defs echo_lib_def)
  have d: "?c = (Some ''/tmp/b.wav'', fst (snd ?c), snd (snd ?c))"
    using c by (metis prod.collapse)
  note t1 = reference_cache_hit [of ?e "''ref.wav''" echo_lib "[104, 105]" demo_world]
  note t2 = reference_cache_hit [of fresh_engine "''ref.wav''" echo_lib "[104, 105]" demo_world
      "''/tmp/b.wav''" "fst (snd ?c)" "snd (snd ?c)"]
  have 1: "\<exists>r w1. clone_voice echo_lib [104, 105] ''ref.wav'' (?e, demo_world) = (r, ?e, w1) \<and>
      extract_calls w1 = extract_calls demo_world"
    using t1 a by blast
  have 2: "extract_calls (snd (snd ?c)) = extract_calls demo_world @ [''ref.wav'']"
    using t2 b by blast
  have 3: "\<not> needs_analysis (fst (snd ?c)) ''ref.wav''"
    using t2 d by blast
  show ?thesis using a b c 1 2 3 by blast
qed


text \<open>
  Claim C7 on the code. The base file is unlinked on the path that returns the output,
  and only there. With a library whose \<^verbatim>\<open>sf.write\<close> raises, \<^verbatim>\<open>clone_voice\<close> on the text "hi"
  returns \<^verbatim>\<open>None\<close> and leaves two files behind: the base synthesis \<^verbatim>\<open>/tmp/a.wav\<close> and the
  empty output file \<^verbatim>\<open>/tmp/b.wav\<close>. With a library whose write succeeds the same call
  returns \<^verbatim>\<open>/tmp/b.wav\<close> and the base file is gone.
\<close>

theorem base_file_left_behind:
  "fst (clone_voice write_failing_lib [104, 105] ''ref.wav'' (fresh_engine, demo_world)) = None \<and>
   disk (snd (snd (clone_voice write_failing_lib [104, 105] ''ref.wav'' (fresh_engine, demo_world))))
     ''/tmp/a.wav'' = Some (AudioFile [Fin 104, Fin 105]) \<and>
   disk (snd (snd (clone_voice write_failing_lib [104, 105] ''ref.wav'' (fresh_engine, demo_world))))
     ''/tmp/b.wav'' = Some EmptyFile \<and>
   fst (clone_voice echo_lib [104, 105] ''ref.wav'' (fresh_engine, demo_world)) = Some ''/tmp/b.wav'' \<and>
   disk (snd (snd (clone_voice echo_lib [104, 105] ''ref.wav'' (fresh_engine, demo_world))))
     ''/tmp/a.wav'' = None"
  by (simp add: clone_eval_defs write_failing_lib_def echo_lib_def)


section \<open>The similarity score\<close>

lemma closeness_sym: "closeness a b = closeness b a"
proof -
  have s: "fl_abs (fl_sub a b) = fl_abs (fl_sub b a)"
    by (cases a; cases b) (simp_all add: fl_sub_def abs_minus_commute)
  have "fl_div (fl_abs (fl_sub a b)) (py_max a b) = fl_div (fl_abs (fl_sub b a)) (py_max b a)"
  proof (cases "np_isnan a \<or> np_isnan b")
    case True
    then have "fl_abs (fl_sub a b) = NaN" and "fl_abs (fl_sub b a) = NaN"
      by (cases a; cases b; simp add: fl_sub_def)+
    then show ?thesis by simp
  next
    case False
    then have "py_max a b = py_max b a"
      by (cases a; cases b) (auto simp: py_max_def fl_gt_def)
    then show ?thesis using s by simp
  qed
  then show ?thesis by (simp add: closeness_def)
qed

lemma clamp_unit: "\<exists>r. py_max (Fin 0) (py_min (Fin 1) s) = Fin r \<and> 0 \<le> r \<and> r \<le> 1"
  by (cases s) (auto simp: py_max_def py_min_def fl_gt_def)

lemma closeness_self: "closeness a a = Fin 1 \<or> closeness a a = NaN"
  by (cases a) (auto simp: closeness_def fl_sub_def py_max_def fl_gt_def signed_inf_def)

lemma similarity_self:
  assumes "f0_mean fs = Some f" and "spectral_centroid_mean fs = Some c"
  shows "similarity_of fs fs = Inr (Fin 1)"
proof -
  have "fl_div (fl_add (closeness f f) (closeness c c)) (Fin 2) = Fin 1 \<or>
        fl_div (fl_add (closeness f f) (closeness c c)) (Fin 2) = NaN"
    using closeness_self [of f] closeness_self [of c] by auto
  then have "py_max (Fin 0) (py_min (Fin 1) (fl_div (fl_add (closeness f f) (closeness c c)) (Fin 2)))
      = Fin 1"
    by (auto simp: py_max_def py_min_def fl_gt_def)
  then show ?thesis
    by (simp add: similarity_of_def subscript_def and_then_def assms Let_def)
qed

lemma similarity_sym:
  assumes "f0_mean x = Some fx" and "spectral_centroid_mean x = Some cx"
    and "f0_mean y = Some fy" and "spectral_centroid_mean y = Some cy"
  shows "similarity_of x y = similarity_of y x"
  by (simp add: similarity_of_def subscript_def and_then_def assms Let_def
      closeness_sym [of fx fy] closeness_sym [of cx cy])

lemma similarity_range:
  assumes "f0_mean x = Some fx" and "spectral_centroid_mean x = Some cx"
    and "f0_mean y = Some fy" and "spectral_centroid_mean y = Some cy"
  shows "\<exists>r. similarity_of x y = Inr (Fin r) \<and> 0 \<le> r \<and> r \<le> 1"
  using clamp_unit [of "fl_div (fl_add (closeness fx fy) (closeness cx cy)) (Fin 2)"]
  by (simp add: similarity_of_def subscript_def and_then_def assms Let_def)

lemma extraction_keys:
  assumes "extraction L d p = Some (fs, a, sr)"
  shows "dict_truthy fs \<and> (\<exists>f. f0_mean fs = Some f) \<and> (\<exists>c. spectral_centroid_mean fs = Some c)"
  using assms
  by (auto simp: extraction_def features_of_def and_then_def dict_truthy_def
      split: sum.splits prod.splits)

lemma score_unfold:
  "fst (get_voice_similarity_score L c r w) =
     score_of (extraction L (disk w) r) (extraction L (disk w) c)"
  by (simp add: get_voice_similarity_score_def extract_voice_features_def say_def Let_def
      split: option.splits prod.splits)

text \<open>
  Claim C8. The similarity score is 0.0 when the extraction of either file fails. When
  both succeed the score does not depend on the order of the two files, it is a finite
  number between 0 and 1, and the score of a file with itself is 1.0.
\<close>

theorem similarity_properties:
  "(extraction L (disk w) a = None \<or> extraction L (disk w) b = None \<longrightarrow>
      fst (get_voice_similarity_score L a b w) = Fin 0) \<and>
   (extraction L (disk w) a \<noteq> None \<and> extraction L (disk w) b \<noteq> None \<longrightarrow>
      fst (get_voice_similarity_score L a b w) = fst (get_voice_similarity_score L b a w) \<and>
      (\<exists>r. fst (get_voice_similarity_score L a b w) = Fin r \<and> 0 \<le> r \<and> r \<le> 1)) \<and>
   (extraction L (disk w) a \<noteq> None \<longrightarrow> fst (get_voice_similarity_score L a a w) = Fin 1)"
proof -
  have none: "fst (get_voice_similarity_score L a b w) = Fin 0"
    if "extraction L (disk w) a = None \<or> extraction L (disk w) b = None"
    using that by (auto simp: score_unfold score_of_def split: option.splits)
  have both: "fst (get_voice_similarity_score L a b w) = fst (get_voice_similarity_score L b a w) \<and>
      (\<exists>r. fst (get_voice_similarity_score L a b w) = Fin r \<and> 0 \<le> r \<and> r \<le> 1)"
    if h: "extraction L (disk w) a \<noteq> None \<and> extraction L (disk w) b \<noteq> None"
  proof -
    obtain x xa xs y ya ys where xa: "extraction L (disk w) a = Some (x, xa, xs)"
      and yb: "extraction L (disk w) b = Some (y, ya, ys)" using h by auto
    obtain fx cx where kx: "dict_truthy x" "f0_mean x = Some fx" "spectral_centroid_mean x = Some cx"
      using extraction_keys [OF xa] by blast
    obtain fy cy where ky: "dict_truthy y" "f0_mean y = Some fy" "spectral_centroid_mean y = Some cy"
      using extraction_keys [OF yb] by blast
    have ab: "fst (get_voice_similarity_score L a b w) = or_else (similarity_of y x) (Fin 0)"
      by (simp add: score_unfold score_of_def xa yb kx ky)
    have ba: "fst (get_voice_similarity_score L b a w) = or_else (similarity_of x y) (Fin 0)"
      by (simp add: score_unfold score_of_def xa yb kx ky)
    have sym: "similarity_of y x = similarity_of x y"
      using similarity_sym kx ky by blast
    obtain r where r: "similarity_of y x = Inr (Fin r)" and b: "0 \<le> r" "r \<le> 1"
      using similarity_range [OF ky(2) ky(3) kx(2) kx(3)] by blast
    have v: "fst (get_voice_similarity_score L a b w) = Fin r"
      by (simp only: ab r or_else_def sum.case)
    have "similarity_of x y = Inr (Fin r)" using sym r by simp
    then have u: "fst (get_voice_similarity_score L b a w) = Fin r"
      by (simp only: ba or_else_def sum.case)
    show ?thesis using v u b by simp
  qed
  have self: "fst (get_voice_similarity_score L a a w) = Fin 1"
    if ex: "extraction L (disk w) a \<noteq> None"
  proof -
    obtain x xa xs where xa: "extraction L (disk w) a = Some (x, xa, xs)" using ex by auto
    obtain fx cx where kx: "dict_truthy x" "f0_mean x = Some fx" "spectral_centroid_mean x = Some cx"
      using extraction_keys [OF xa] by blast
    show ?thesis
      by (simp add: score_unfold score_of_def xa kx similarity_self [OF kx(2) kx(3)] or_else_def)
  qed
  show ?thesis using none both self by blast
qed

text \<open>A path that holds no file against the reference, and the reference against itself.\<close>

theorem similarity_properties_witness:
  "extraction echo_lib (disk demo_world) ''missing.wav'' = None \<and>
   fst (get_voice_similarity_score echo_lib ''missing.wav'' ''ref.wav'' demo_world) = Fin 0 \<and>
   extraction echo_lib (disk demo_world) ''ref.wav'' \<noteq> None \<and>
   fst (get_voice_similarity_score echo_lib ''ref.wav'' ''ref.wav'' demo_world) = Fin 1"
proof -
  have m: "extraction echo_lib (disk demo_world) ''missing.wav'' = None"
    by (simp add: extraction_def load_audio_def and_then_def demo_world_def)
  have p: "extraction echo_lib (disk demo_world) ''ref.wav'' \<noteq> None"
    by (simp add: extraction_def load_audio_def features_of_def and_then_def demo_world_def echo_lib_def)
  show ?thesis
    using m p similarity_properties [of echo_lib demo_world "''missing.wav''" "''ref.wav''"]
      similarity_properties [of echo_lib demo_world "''ref.wav''" "''ref.wav''"]
    by blast
qed


end
